theory Spec2Isabelle
  imports Complex_Main "HOL-Library.Sublist" "HOL-Library.AList"
begin

section \<open>Python values, exceptions and built-ins\<close>

text \<open>
  The retrieval-and-synthesis pipeline of the repository (\<^verbatim>\<open>src/rag/query_analyzer.py\<close>,
  \<^verbatim>\<open>src/rag/retriever.py\<close>, \<^verbatim>\<open>src/rag/synthesizer.py\<close>, \<^verbatim>\<open>src/utils/llm_client.py\<close>) is embedded
  function by function. A Python \<^verbatim>\<open>str\<close> is a \<^typ>\<open>string\<close> holding its UTF-8 bytes; a
  \<^verbatim>\<open>float\<close> is a \<^typ>\<open>real\<close>; a \<^verbatim>\<open>dict\<close> is the list of its items, looked up with
  \<^const>\<open>map_of\<close>. \<^verbatim>\<open>print\<close> calls are left out.

  \<open>pyval\<close> is a value decoded by \<^verbatim>\<open>json.loads\<close>: the fields of a \<open>QueryAnalysis\<close> built from
  the model's reply hold whatever the reply held, since Python checks no type there.
  \<open>mval\<close> is a value of a metadata dictionary of the vector index (ChromaDB stores
  \<^verbatim>\<open>str\<close>, \<^verbatim>\<open>int\<close>, \<^verbatim>\<open>float\<close> and \<^verbatim>\<open>bool\<close>). Equality of \<open>mval\<close> is structural; Python's
  \<^verbatim>\<open>==\<close> is the same relation on strings, which is what the index holds under
  \<^verbatim>\<open>"title"\<close> and \<^verbatim>\<open>"url"\<close>, and differs only in identifying numbers across
  \<^verbatim>\<open>int\<close>, \<^verbatim>\<open>float\<close> and \<^verbatim>\<open>bool\<close>.
\<close>

datatype pyval =
    PNone
  | PBool bool
  | PInt int
  | PFloat real
  | PStr string
  | PList "pyval list"
  | PDict "(string \<times> pyval) list"

datatype mval = MStr string | MInt int | MFloat real | MBool bool

type_synonym metadata_dict = "(string \<times> mval) list"

datatype exn =
    Exception string
  | KeyError string
  | IndexError string
  | TypeError string
  | AttributeError string
  | ValueError string

text \<open>\<^verbatim>\<open>str(e)\<close>: the message; for a \<^verbatim>\<open>KeyError\<close> the \<^verbatim>\<open>repr\<close> of the key.\<close>

fun str_exn :: "exn \<Rightarrow> string" where
  "str_exn (Exception m) = m"
| "str_exn (KeyError k) = [CHR 0x27] @ k @ [CHR 0x27]"
| "str_exn (IndexError m) = m"
| "str_exn (TypeError m) = m"
| "str_exn (AttributeError m) = m"
| "str_exn (ValueError m) = m"

text \<open>Truth value testing (\<^verbatim>\<open>if x:\<close>, \<^verbatim>\<open>x and y\<close>).\<close>

fun truthy :: "pyval \<Rightarrow> bool" where
  "truthy PNone = False"
| "truthy (PBool b) = b"
| "truthy (PInt i) = (i \<noteq> 0)"
| "truthy (PFloat x) = (x \<noteq> 0)"
| "truthy (PStr s) = (s \<noteq> [])"
| "truthy (PList xs) = (xs \<noteq> [])"
| "truthy (PDict d) = (d \<noteq> [])"

fun py_type_name :: "pyval \<Rightarrow> string" where
  "py_type_name PNone = ''NoneType''"
| "py_type_name (PBool b) = ''bool''"
| "py_type_name (PInt i) = ''int''"
| "py_type_name (PFloat x) = ''float''"
| "py_type_name (PStr s) = ''str''"
| "py_type_name (PList xs) = ''list''"
| "py_type_name (PDict d) = ''dict''"

fun to_pyval :: "mval \<Rightarrow> pyval" where
  "to_pyval (MStr s) = PStr s"
| "to_pyval (MInt i) = PInt i"
| "to_pyval (MFloat x) = PFloat x"
| "to_pyval (MBool b) = PBool b"

text \<open>\<^verbatim>\<open>d[k]\<close> raises \<^verbatim>\<open>KeyError\<close> on a missing key, \<^verbatim>\<open>d.get(k, default)\<close> does not;
  \<^verbatim>\<open>xs[i]\<close> (with \<open>i \<ge> 0\<close>) raises \<^verbatim>\<open>IndexError\<close> out of range.\<close>

definition dict_item :: "(string \<times> 'v) list \<Rightarrow> string \<Rightarrow> exn + 'v" where
  "dict_item d k = (case map_of d k of None \<Rightarrow> Inl (KeyError k) | Some v \<Rightarrow> Inr v)"

definition dict_get :: "(string \<times> 'v) list \<Rightarrow> string \<Rightarrow> 'v \<Rightarrow> 'v" where
  "dict_get d k dflt = (case map_of d k of None \<Rightarrow> dflt | Some v \<Rightarrow> v)"

definition list_item :: "'a list \<Rightarrow> nat \<Rightarrow> exn + 'a" where
  "list_item xs i = (if i < length xs then Inr (xs ! i) else Inl (IndexError ''list index out of range''))"

text \<open>
  Built-ins of Python and its standard library, whose code is not part of the repository,
  are parameters: \<^verbatim>\<open>str.lower\<close>, \<^verbatim>\<open>str.strip\<close>, the characters a \<^verbatim>\<open>str\<close> yields when iterated,
  \<^verbatim>\<open>str()\<close> of a value that is not a string, the format \<^verbatim>\<open>.2%\<close> of a float, and
  \<^verbatim>\<open>json.loads\<close>.
\<close>

record builtins =
  str_lower :: "string \<Rightarrow> string"
  str_strip :: "string \<Rightarrow> string"
  str_chars :: "string \<Rightarrow> string list"
  py_repr :: "pyval \<Rightarrow> string"
  format_percent :: "real \<Rightarrow> string"
  json_loads :: "string \<Rightarrow> exn + pyval"

text \<open>\<^verbatim>\<open>str(v)\<close>, as an f-string applies it: a string is itself.\<close>

definition py_str :: "builtins \<Rightarrow> pyval \<Rightarrow> string" where
  "py_str B v = (case v of PStr s \<Rightarrow> s | _ \<Rightarrow> py_repr B v)"

text \<open>\<^verbatim>\<open>sep.join(xs)\<close> on a list of strings.\<close>

fun join :: "string \<Rightarrow> string list \<Rightarrow> string" where
  "join sep [] = []"
| "join sep [x] = x"
| "join sep (x # y # ys) = x @ sep @ join sep (y # ys)"

section \<open>External services and the trace of calls\<close>

text \<open>
  The Groq chat-completion endpoint and the ChromaDB collection (with the embedding model
  in front of it) are the two services. A reply is a value or an exception, and is a
  function of the request: the operations modelled here only read the index, and the
  requests that one \<^verbatim>\<open>compare\<close> sends to the model all differ (in \<^verbatim>\<open>max_tokens\<close>).
  Every call is recorded, in order, in a trace that the functions pass along.
\<close>

record chat_request =
  model :: string
  messages :: "(string \<times> string) list"
  temperature :: real
  max_tokens :: int

record store_request =
  query_text :: pyval
  n_results :: int
  filter_metadata :: "metadata_dict option"

record raw_results =
  ids :: "string list"
  documents :: "string list"
  metadatas :: "metadata_dict list"
  distances :: "real list"

datatype event = ChatCompletion chat_request | StoreQuery store_request

record services =
  chat_api :: "chat_request \<Rightarrow> exn + string"
  index_query :: "store_request \<Rightarrow> exn + raw_results"

subsection \<open>\<^verbatim>\<open>LLMClient\<close> (\<^verbatim>\<open>src/utils/llm_client.py\<close>)\<close>

text \<open>
  \<^verbatim>\<open>generate\<close> sends one chat completion and returns the stripped content; any exception
  inside its \<^verbatim>\<open>try\<close> is re-raised as \<^verbatim>\<open>Exception("LLM generation failed: ...")\<close>.
\<close>

definition build_request :: "string \<Rightarrow> string option \<Rightarrow> real \<Rightarrow> int \<Rightarrow> chat_request" where
  "build_request user_text sys_text temp limit =
     \<lparr>model = ''llama-3.3-70b-versatile'',
      messages = (case sys_text of
                    None \<Rightarrow> []
                  | Some sp \<Rightarrow> if sp \<noteq> [] then [(''system'', sp)] else [])
                 @ [(''user'', user_text)],
      temperature = temp, max_tokens = limit\<rparr>"

definition generate ::
  "builtins \<Rightarrow> services \<Rightarrow> string \<Rightarrow> string option \<Rightarrow> real \<Rightarrow> int \<Rightarrow> event list
     \<Rightarrow> (exn + string) \<times> event list" where
  "generate B S user_text sys_text temp limit tr =
     (let req = build_request user_text sys_text temp limit
      in case chat_api S req of
           Inl e \<Rightarrow> (Inl (Exception (''LLM generation failed: '' @ str_exn e)),
                     tr @ [ChatCompletion req])
         | Inr text \<Rightarrow> (Inr (str_strip B text), tr @ [ChatCompletion req]))"

definition generate_json ::
  "builtins \<Rightarrow> services \<Rightarrow> string \<Rightarrow> string option \<Rightarrow> real \<Rightarrow> event list
     \<Rightarrow> (exn + string) \<times> event list" where
  "generate_json B S user_text sys_text temp tr =
     (let sys_text' = (case sys_text of
                         None \<Rightarrow> ''You MUST respond with valid JSON only. No other text.''
                       | Some sp \<Rightarrow>
                           if sp \<noteq> []
                           then sp @ ''\<newline>\<newline>You MUST respond with valid JSON only. No other text.''
                           else ''You MUST respond with valid JSON only. No other text.'')
      in generate B S user_text (Some sys_text') temp 3000 tr)"

section \<open>\<^verbatim>\<open>QueryAnalyzer\<close> (\<^verbatim>\<open>src/rag/query_analyzer.py\<close>)\<close>

record QueryAnalysis =
  original_query :: string
  query_type :: pyval
  aspects :: pyval
  entities :: pyval
  is_comparative :: pyval
  expanded_query :: pyval

definition analyze_system_prompt :: string where
  "analyze_system_prompt =
     ''You are a query analysis expert for product comparison systems.\<newline>'' @
     ''Analyze the user'' @ [CHR 0x27] @ ''s query and return ONLY valid JSON with this structure:\<newline>'' @
     ''\<newline>'' @
     ''{\<newline>'' @
     ''    \"query_type\": \"comparison\" or \"specific\" or \"general\",\<newline>'' @
     ''    \"aspects\": [\"aspect1\", \"aspect2\"],\<newline>'' @
     ''    \"entities\": [\"brand1\", \"product1\"],\<newline>'' @
     ''    \"is_comparative\": true or false,\<newline>'' @
     ''    \"expanded_query\": \"expanded version of query\"\<newline>'' @
     ''}\<newline>'' @
     ''\<newline>'' @
     ''Guidelines:\<newline>'' @
     ''- query_type: \<newline>'' @
     ''  * \"comparison\" if comparing multiple products\<newline>'' @
     ''  * \"specific\" if asking about one product feature\<newline>'' @
     ''  * \"general\" for broad questions\<newline>'' @
     ''  \<newline>'' @
     ''- aspects: Extract what user wants to know about (price, camera, battery, display, performance, design, reviews, etc.)\<newline>'' @
     ''\<newline>'' @
     ''- entities: Extract specific brands, product names, or models mentioned\<newline>'' @
     ''\<newline>'' @
     ''- is_comparative: true if query compares or asks \"which/better/best\"\<newline>'' @
     ''\<newline>'' @
     ''- expanded_query: Rewrite query with more keywords for better search\<newline>'' @
     ''  Example: \"which is cheaper?\" '' @ [CHR 0xE2] @ [CHR 0x86] @ [CHR 0x92] @ '' \"price comparison cost budget affordable\"\<newline>'' @
     ''\<newline>'' @
     ''Return ONLY the JSON object.''"

definition analyze_user_prompt :: "string \<Rightarrow> string" where
  "analyze_user_prompt q =
     ''Analyze this query:\<newline>'' @
     ''\<newline>'' @
     ''Query: '' @ q @ ''\<newline>'' @
     ''\<newline>'' @
     ''Return the JSON analysis.''"

text \<open>\<^verbatim>\<open>kw in query_lower\<close> on strings is the substring test, \<^const>\<open>sublist\<close>.\<close>

definition comparative_keywords :: "string list" where
  "comparative_keywords =
     [''compare'', ''versus'', ''vs'', ''which'', ''better'', ''best'',
      ''difference'', ''between'', ''or'']"

definition specific_keywords :: "string list" where
  "specific_keywords = [''tell me'', ''what is'', ''how'']"

definition aspect_keywords :: "(string \<times> string list) list" where
  "aspect_keywords =
     [(''price'', [''price'', ''cost'', ''expensive'', ''cheap'', ''budget'']),
      (''camera'', [''camera'', ''photo'', ''picture'', ''video'']),
      (''battery'', [''battery'', ''charge'', ''power'']),
      (''display'', [''display'', ''screen'', ''resolution'']),
      (''performance'', [''performance'', ''speed'', ''fast'', ''processor'']),
      (''design'', [''design'', ''look'', ''style'', ''build''])]"

definition fallback_analysis :: "builtins \<Rightarrow> string \<Rightarrow> QueryAnalysis" where
  "fallback_analysis B q =
     (let query_lower = str_lower B q;
          comparative = list_ex (\<lambda>kw. sublist kw query_lower) comparative_keywords;
          qtype = (if comparative then ''comparison''
                   else if list_ex (\<lambda>word. sublist word query_lower) specific_keywords
                   then ''specific''
                   else ''general'');
          found = map fst (filter (\<lambda>(aspect, keywords).
                                     list_ex (\<lambda>kw. sublist kw query_lower) keywords)
                                  aspect_keywords)
      in \<lparr>original_query = q, query_type = PStr qtype, aspects = PList (map PStr found),
          entities = PList [], is_comparative = PBool comparative,
          expanded_query = PStr q\<rparr>)"

text \<open>
  The body of the \<^verbatim>\<open>try\<close> block of \<^verbatim>\<open>analyze\<close>: the reply is decoded and its fields read
  with \<^verbatim>\<open>data.get(key, default)\<close>. A decoded value that is not a \<^verbatim>\<open>dict\<close> has no
  \<^verbatim>\<open>get\<close> (a \<^verbatim>\<open>list\<close>, a \<^verbatim>\<open>str\<close>, a number, \<^verbatim>\<open>None\<close>): \<^verbatim>\<open>AttributeError\<close>.
\<close>

definition read_analysis :: "builtins \<Rightarrow> string \<Rightarrow> string \<Rightarrow> exn + QueryAnalysis" where
  "read_analysis B q response =
     (case json_loads B response of
        Inl e \<Rightarrow> Inl e
      | Inr (PDict data) \<Rightarrow>
          Inr \<lparr>original_query = q,
               query_type = dict_get data ''query_type'' (PStr ''general''),
               aspects = dict_get data ''aspects'' (PList []),
               entities = dict_get data ''entities'' (PList []),
               is_comparative = dict_get data ''is_comparative'' (PBool False),
               expanded_query = dict_get data ''expanded_query'' (PStr q)\<rparr>
      | Inr v \<Rightarrow>
          Inl (AttributeError ([CHR 0x27] @ py_type_name v @ [CHR 0x27]
                 @ '' object has no attribute '' @ [CHR 0x27] @ ''get'' @ [CHR 0x27])))"

definition analyze_try ::
  "builtins \<Rightarrow> services \<Rightarrow> string \<Rightarrow> event list \<Rightarrow> (exn + QueryAnalysis) \<times> event list" where
  "analyze_try B S q tr =
     (case generate_json B S (analyze_user_prompt q) (Some analyze_system_prompt) (1/10) tr of
        (Inl e, tr') \<Rightarrow> (Inl e, tr')
      | (Inr response, tr') \<Rightarrow> (read_analysis B q response, tr'))"

text \<open>\<^verbatim>\<open>analyze\<close>: \<^verbatim>\<open>except Exception\<close> turns every failure of the body into the fallback.\<close>

definition analyze ::
  "builtins \<Rightarrow> services \<Rightarrow> string \<Rightarrow> event list \<Rightarrow> (exn + QueryAnalysis) \<times> event list" where
  "analyze B S q tr =
     (case analyze_try B S q tr of
        (Inl e, tr') \<Rightarrow> (Inr (fallback_analysis B q), tr')
      | (Inr analysis, tr') \<Rightarrow> (Inr analysis, tr'))"

section \<open>\<^verbatim>\<open>SmartRetriever\<close> (\<^verbatim>\<open>src/rag/retriever.py\<close>)\<close>

record RetrievalResult =
  product_title :: mval
  brand :: mval
  content :: string
  metadata :: metadata_dict
  relevance_score :: real

record RetrievalContext =
  query :: string
  query_analysis :: QueryAnalysis
  results :: "RetrievalResult list"
  total_retrieved :: int

text \<open>\<^verbatim>\<open>results[:k]\<close>: a negative \<open>k\<close> counts from the end.\<close>

definition get_top_k :: "RetrievalContext \<Rightarrow> int \<Rightarrow> RetrievalResult list" where
  "get_top_k context k =
     (if 0 \<le> k then take (nat k) (results context)
      else take (length (results context) - nat (- k)) (results context))"

definition get_all_products :: "RetrievalContext \<Rightarrow> mval list" where
  "get_all_products context = map product_title (results context)"

text \<open>
  The loop of \<^verbatim>\<open>retrieve\<close> over \<^verbatim>\<open>range(len(raw_results["ids"]))\<close>, with the list built so
  far. The keyword arguments of \<^verbatim>\<open>RetrievalResult(...)\<close> are evaluated in the order written.
\<close>

fun process_results ::
  "raw_results \<Rightarrow> real \<Rightarrow> nat list \<Rightarrow> RetrievalResult list \<Rightarrow> exn + RetrievalResult list" where
  "process_results raw min_relevance [] acc = Inr acc"
| "process_results raw min_relevance (i # rest) acc =
     (case list_item (distances raw) i of
        Inl e \<Rightarrow> Inl e
      | Inr distance \<Rightarrow>
          let relevance = max 0 (1 - distance) in
          if relevance < min_relevance then process_results raw min_relevance rest acc
          else
            (case list_item (metadatas raw) i of
               Inl e \<Rightarrow> Inl e
             | Inr md \<Rightarrow>
                 (case dict_item md ''title'' of
                    Inl e \<Rightarrow> Inl e
                  | Inr title \<Rightarrow>
                      (case dict_item md ''brand'' of
                         Inl e \<Rightarrow> Inl e
                       | Inr b \<Rightarrow>
                           (case list_item (documents raw) i of
                              Inl e \<Rightarrow> Inl e
                            | Inr doc \<Rightarrow>
                                process_results raw min_relevance rest
                                  (acc @ [\<lparr>product_title = title, brand = b, content = doc,
                                           metadata = md, relevance_score = relevance\<rparr>]))))))"

text \<open>
  \<^verbatim>\<open>_ensure_diversity\<close>: the loop carries \<^verbatim>\<open>seen_products\<close> and \<^verbatim>\<open>diverse_results\<close>.
\<close>

fun diversity_loop ::
  "RetrievalResult list \<Rightarrow> int \<Rightarrow> mval set \<Rightarrow> RetrievalResult list \<Rightarrow> RetrievalResult list" where
  "diversity_loop [] max_per_product seen_products diverse_results = diverse_results"
| "diversity_loop (result # rest) max_per_product seen_products diverse_results =
     (if product_title result \<notin> seen_products
      then diversity_loop rest max_per_product
             (insert (product_title result) seen_products) (diverse_results @ [result])
      else if int (length (filter (\<lambda>r. product_title r = product_title result) diverse_results))
                < max_per_product
      then diversity_loop rest max_per_product seen_products (diverse_results @ [result])
      else diversity_loop rest max_per_product seen_products diverse_results)"

definition ensure_diversity :: "RetrievalResult list \<Rightarrow> int \<Rightarrow> RetrievalResult list" where
  "ensure_diversity rs max_per_product = diversity_loop rs max_per_product {} []"

definition retrieve ::
  "builtins \<Rightarrow> services \<Rightarrow> string \<Rightarrow> int \<Rightarrow> real \<Rightarrow> event list
     \<Rightarrow> (exn + RetrievalContext) \<times> event list" where
  "retrieve B S q max_results min_relevance tr =
     (case analyze B S q tr of
        (Inl e, tr1) \<Rightarrow> (Inl e, tr1)
      | (Inr analysis, tr1) \<Rightarrow>
          let req = \<lparr>query_text = expanded_query analysis, n_results = max_results,
                     filter_metadata = None\<rparr>
          in (case index_query S req of
                Inl e \<Rightarrow> (Inl e, tr1 @ [StoreQuery req])
              | Inr raw \<Rightarrow>
                  (case process_results raw min_relevance [0..<length (ids raw)] [] of
                     Inl e \<Rightarrow> (Inl e, tr1 @ [StoreQuery req])
                   | Inr found \<Rightarrow>
                       let kept = (if truthy (is_comparative analysis) \<and> length found > 0
                                   then ensure_diversity found 1 else found)
                       in (Inr \<lparr>query = q, query_analysis = analysis, results = kept,
                                total_retrieved = int (length kept)\<rparr>,
                           tr1 @ [StoreQuery req]))))"

text \<open>
  The targeted path of \<^verbatim>\<open>retrieve_for_comparison\<close>: one lookup per URL, reading entry 0
  of a reply that has any id.
\<close>

definition targeted_result :: "raw_results \<Rightarrow> exn + RetrievalResult" where
  "targeted_result raw =
     (case list_item (metadatas raw) 0 of
        Inl e \<Rightarrow> Inl e
      | Inr md \<Rightarrow>
          (case dict_item md ''title'' of
             Inl e \<Rightarrow> Inl e
           | Inr title \<Rightarrow>
               (case dict_item md ''brand'' of
                  Inl e \<Rightarrow> Inl e
                | Inr b \<Rightarrow>
                    (case list_item (documents raw) 0 of
                       Inl e \<Rightarrow> Inl e
                     | Inr doc \<Rightarrow>
                         (case list_item (distances raw) 0 of
                            Inl e \<Rightarrow> Inl e
                          | Inr distance \<Rightarrow>
                              Inr \<lparr>product_title = title, brand = b, content = doc,
                                   metadata = md, relevance_score = 1 - distance\<rparr>)))))"

definition url_request :: "string \<Rightarrow> string \<Rightarrow> store_request" where
  "url_request q url =
     \<lparr>query_text = PStr q, n_results = 1, filter_metadata = Some [(''url'', MStr url)]\<rparr>"

fun targeted_loop ::
  "services \<Rightarrow> string \<Rightarrow> string list \<Rightarrow> RetrievalResult list \<Rightarrow> event list
     \<Rightarrow> (exn + RetrievalResult list) \<times> event list" where
  "targeted_loop S q [] acc tr = (Inr acc, tr)"
| "targeted_loop S q (url # rest) acc tr =
     (case index_query S (url_request q url) of
        Inl e \<Rightarrow> (Inl e, tr @ [StoreQuery (url_request q url)])
      | Inr raw \<Rightarrow>
          if ids raw \<noteq> [] then
            (case targeted_result raw of
               Inl e \<Rightarrow> (Inl e, tr @ [StoreQuery (url_request q url)])
             | Inr result \<Rightarrow>
                 targeted_loop S q rest (acc @ [result]) (tr @ [StoreQuery (url_request q url)]))
          else targeted_loop S q rest acc (tr @ [StoreQuery (url_request q url)]))"

text \<open>\<^verbatim>\<open>if product_urls:\<close> holds for a list that is neither \<^verbatim>\<open>None\<close> nor empty.\<close>

fun given :: "string list option \<Rightarrow> bool" where
  "given None = False"
| "given (Some urls) = (urls \<noteq> [])"

definition retrieve_for_comparison ::
  "builtins \<Rightarrow> services \<Rightarrow> string \<Rightarrow> string list option \<Rightarrow> event list
     \<Rightarrow> (exn + RetrievalContext) \<times> event list" where
  "retrieve_for_comparison B S q product_urls tr =
     (case product_urls of
        Some (url # rest) \<Rightarrow>
          (case targeted_loop S q (url # rest) [] tr of
             (Inl e, tr1) \<Rightarrow> (Inl e, tr1)
           | (Inr found, tr1) \<Rightarrow>
               (case analyze B S q tr1 of
                  (Inl e, tr2) \<Rightarrow> (Inl e, tr2)
                | (Inr analysis, tr2) \<Rightarrow>
                    (Inr \<lparr>query = q, query_analysis = analysis, results = found,
                          total_retrieved = int (length found)\<rparr>, tr2)))
      | _ \<Rightarrow> retrieve B S q 20 0 tr)"

text \<open>
  \<^verbatim>\<open>', '.join(aspects)\<close> iterates its argument: the items of a list, the characters of a
  string, the keys of a dict; it raises \<^verbatim>\<open>TypeError\<close> on an item that is not a string
  and on a value that cannot be iterated.
\<close>

fun the_str :: "pyval \<Rightarrow> string option" where
  "the_str (PStr s) = Some s"
| "the_str v = None"

definition join_value :: "builtins \<Rightarrow> string \<Rightarrow> pyval \<Rightarrow> exn + string" where
  "join_value B sep v =
     (case v of
        PList xs \<Rightarrow>
          (if list_all (\<lambda>x. the_str x \<noteq> None) xs then Inr (join sep (List.map_filter the_str xs))
           else Inl (TypeError ''sequence item: expected str instance''))
      | PStr s \<Rightarrow> Inr (join sep (str_chars B s))
      | PDict d \<Rightarrow> Inr (join sep (map fst d))
      | _ \<Rightarrow> Inl (TypeError ''can only join an iterable''))"

fun product_sections :: "builtins \<Rightarrow> int \<Rightarrow> RetrievalResult list \<Rightarrow> string list" where
  "product_sections B i [] = []"
| "product_sections B i (result # rest) =
     [''## Product '' @ py_repr B (PInt i) @ '': '' @ py_str B (to_pyval (product_title result)),
      ''Brand: '' @ py_str B (to_pyval (brand result)),
      ''Relevance: '' @ format_percent B (relevance_score result),
      [],
      content result,
      [],
      ''---'',
      []] @ product_sections B (i + 1) rest"

definition format_context_for_llm :: "builtins \<Rightarrow> RetrievalContext \<Rightarrow> int \<Rightarrow> exn + string" where
  "format_context_for_llm B context max_products =
     (let header = [''# Product Information'',
                    [],
                    ''Query: '' @ query context,
                    ''Query Type: '' @ py_str B (query_type (query_analysis context)),
                    []]
      in case (if truthy (aspects (query_analysis context))
               then (case join_value B '', '' (aspects (query_analysis context)) of
                       Inl e \<Rightarrow> Inl e
                     | Inr joined \<Rightarrow> Inr [''Focus Areas: '' @ joined, []])
               else Inr []) of
           Inl e \<Rightarrow> Inl e
         | Inr focus \<Rightarrow>
             Inr (join ''\<newline>''
                    (header @ focus @ [''---'', []]
                     @ product_sections B 1 (get_top_k context max_products))))"

section \<open>\<^verbatim>\<open>ComparisonSynthesizer\<close> (\<^verbatim>\<open>src/rag/synthesizer.py\<close>)\<close>

text \<open>
  \<^verbatim>\<open>ComparisonResult\<close>; its field \<^verbatim>\<open>query\<close> is \<open>result_query\<close> here. \<^verbatim>\<open>__post_init__\<close>
  replaces a \<^verbatim>\<open>citations\<close> of \<^verbatim>\<open>None\<close> by the empty list, so the field is a list. A
  comparison table is a \<^verbatim>\<open>dict\<close> from product title to a \<^verbatim>\<open>dict\<close> with the keys
  \<^verbatim>\<open>"brand"\<close>, \<^verbatim>\<open>"price"\<close>, \<^verbatim>\<open>"rating"\<close>.
\<close>

record ComparisonResult =
  result_query :: string
  answer :: string
  products_compared :: "mval list"
  comparison_table :: "(mval \<times> metadata_dict) list option"
  summary :: "string option"
  citations :: "mval list"

definition comparison_system_prompt :: string where
  "comparison_system_prompt =
     ''You are an expert product comparison analyst. \<newline>'' @
     ''Your job is to provide clear, objective comparisons based on the given product information.\<newline>'' @
     ''\<newline>'' @
     ''Guidelines:\<newline>'' @
     ''1. Be factual and cite specific information from the products\<newline>'' @
     ''2. Organize comparisons clearly (use tables/bullet points when helpful)\<newline>'' @
     ''3. Highlight key differences and similarities\<newline>'' @
     ''4. Provide a balanced view - mention both pros and cons\<newline>'' @
     ''5. If specific information is not available, say so clearly\<newline>'' @
     ''6. Don'' @ [CHR 0x27] @ ''t make up specifications or features\<newline>'' @
     ''7. Focus on the aspects the user asked about\<newline>'' @
     ''8. End with a brief summary/recommendation if appropriate\<newline>'' @
     ''\<newline>'' @
     ''Format your response in a clear, structured way.''"

definition comparison_user_prompt :: "string \<Rightarrow> string \<Rightarrow> string" where
  "comparison_user_prompt q formatted_context =
     ''Based on the product information below, answer this comparison query:\<newline>'' @
     ''\<newline>'' @
     ''Query: '' @ q @ ''\<newline>'' @
     ''\<newline>'' @
     ''Product Information:\<newline>'' @
     formatted_context @ ''\<newline>'' @
     ''\<newline>'' @
     ''Provide a comprehensive comparison addressing the user'' @ [CHR 0x27] @ ''s query.\<newline>'' @
     ''Structure your answer with:\<newline>'' @
     ''1. Direct answer to the query\<newline>'' @
     ''2. Detailed comparison of relevant aspects\<newline>'' @
     ''3. Key differences highlighted\<newline>'' @
     ''4. Brief summary/recommendation\<newline>'' @
     ''\<newline>'' @
     ''Your response:''"

definition answer_system_prompt :: string where
  "answer_system_prompt =
     ''You are a helpful product information assistant.\<newline>'' @
     ''Answer the user'' @ [CHR 0x27] @ ''s question based on the provided product information.\<newline>'' @
     ''\<newline>'' @
     ''Guidelines:\<newline>'' @
     ''1. Be accurate and cite specific details\<newline>'' @
     ''2. If information is not available, say so\<newline>'' @
     ''3. Be concise but complete\<newline>'' @
     ''4. Use bullet points or lists when appropriate\<newline>'' @
     ''5. Don'' @ [CHR 0x27] @ ''t make up information''"

definition answer_user_prompt :: "string \<Rightarrow> string \<Rightarrow> string" where
  "answer_user_prompt q formatted_context =
     ''Answer this question based on the product information:\<newline>'' @
     ''\<newline>'' @
     ''Query: '' @ q @ ''\<newline>'' @
     ''\<newline>'' @
     ''Product Information:\<newline>'' @
     formatted_context @ ''\<newline>'' @
     ''\<newline>'' @
     ''Your answer:''"

text \<open>
  \<^verbatim>\<open>_extract_comparison_table\<close>: the loop over \<^verbatim>\<open>context.results[:5]\<close> assigns
  \<^verbatim>\<open>table[result.product_title] = {...}\<close>; assigning to a key the \<^verbatim>\<open>dict\<close> already has
  replaces its value and keeps its position (\<^const>\<open>AList.update\<close>). The \<^verbatim>\<open>except\<close> clause
  returns \<^verbatim>\<open>None\<close>.
\<close>

definition table_row :: "builtins \<Rightarrow> RetrievalResult \<Rightarrow> exn + metadata_dict" where
  "table_row B result =
     (case dict_item (metadata result) ''brand'' of
        Inl e \<Rightarrow> Inl e
      | Inr b \<Rightarrow>
          (case dict_item (metadata result) ''currency'' of
             Inl e \<Rightarrow> Inl e
           | Inr currency \<Rightarrow>
               (case dict_item (metadata result) ''price'' of
                  Inl e \<Rightarrow> Inl e
                | Inr price \<Rightarrow>
                    Inr [(''brand'', b),
                         (''price'', MStr (py_str B (to_pyval currency) @ py_str B (to_pyval price))),
                         (''rating'', dict_get (metadata result) ''rating'' (MStr ''N/A''))])))"

fun table_loop ::
  "builtins \<Rightarrow> RetrievalResult list \<Rightarrow> (mval \<times> metadata_dict) list
     \<Rightarrow> exn + (mval \<times> metadata_dict) list" where
  "table_loop B [] table = Inr table"
| "table_loop B (result # rest) table =
     (case table_row B result of
        Inl e \<Rightarrow> Inl e
      | Inr row \<Rightarrow> table_loop B rest (AList.update (product_title result) row table))"

definition extract_comparison_table ::
  "builtins \<Rightarrow> string \<Rightarrow> RetrievalContext \<Rightarrow> (mval \<times> metadata_dict) list option" where
  "extract_comparison_table B reply context =
     (if length (results context) < 2 then None
      else (case table_loop B (take 5 (results context)) [] of
              Inl e \<Rightarrow> None
            | Inr table \<Rightarrow> Some table))"

text \<open>\<^verbatim>\<open>[r.metadata["url"] for r in context.results]\<close>\<close>

fun citation_list :: "RetrievalResult list \<Rightarrow> exn + mval list" where
  "citation_list [] = Inr []"
| "citation_list (r # rest) =
     (case dict_item (metadata r) ''url'' of
        Inl e \<Rightarrow> Inl e
      | Inr url \<Rightarrow>
          (case citation_list rest of
             Inl e \<Rightarrow> Inl e
           | Inr urls \<Rightarrow> Inr (url # urls)))"

text \<open>
  \<^verbatim>\<open>_generate_comparison\<close> and \<^verbatim>\<open>_generate_answer\<close>: the context is formatted before the
  \<^verbatim>\<open>try\<close>; the call of the model, the table and the citations are inside it, and
  \<^verbatim>\<open>except Exception\<close> returns a result whose answer carries \<^verbatim>\<open>str(e)\<close>.
\<close>

definition generate_comparison ::
  "builtins \<Rightarrow> services \<Rightarrow> string \<Rightarrow> RetrievalContext \<Rightarrow> event list
     \<Rightarrow> (exn + ComparisonResult) \<times> event list" where
  "generate_comparison B S q context tr =
     (case format_context_for_llm B context 5 of
        Inl e \<Rightarrow> (Inl e, tr)
      | Inr formatted_context \<Rightarrow>
          (case generate B S (comparison_user_prompt q formatted_context)
                  (Some comparison_system_prompt) (3/10) 2000 tr of
             (Inl e, tr') \<Rightarrow>
               (Inr \<lparr>result_query = q,
                     answer = ''Error generating comparison: '' @ str_exn e,
                     products_compared = get_all_products context,
                     comparison_table = None, summary = None, citations = []\<rparr>, tr')
           | (Inr reply, tr') \<Rightarrow>
               (case citation_list (results context) of
                  Inl e \<Rightarrow>
                    (Inr \<lparr>result_query = q,
                          answer = ''Error generating comparison: '' @ str_exn e,
                          products_compared = get_all_products context,
                          comparison_table = None, summary = None, citations = []\<rparr>, tr')
                | Inr urls \<Rightarrow>
                    (Inr \<lparr>result_query = q, answer = reply,
                          products_compared = get_all_products context,
                          comparison_table = extract_comparison_table B reply context,
                          summary = None, citations = urls\<rparr>, tr'))))"

definition generate_answer ::
  "builtins \<Rightarrow> services \<Rightarrow> string \<Rightarrow> RetrievalContext \<Rightarrow> event list
     \<Rightarrow> (exn + ComparisonResult) \<times> event list" where
  "generate_answer B S q context tr =
     (case format_context_for_llm B context 3 of
        Inl e \<Rightarrow> (Inl e, tr)
      | Inr formatted_context \<Rightarrow>
          (case generate B S (answer_user_prompt q formatted_context)
                  (Some answer_system_prompt) (2/10) 1500 tr of
             (Inl e, tr') \<Rightarrow>
               (Inr \<lparr>result_query = q,
                     answer = ''Error generating answer: '' @ str_exn e,
                     products_compared = get_all_products context,
                     comparison_table = None, summary = None, citations = []\<rparr>, tr')
           | (Inr reply, tr') \<Rightarrow>
               (case citation_list (results context) of
                  Inl e \<Rightarrow>
                    (Inr \<lparr>result_query = q,
                          answer = ''Error generating answer: '' @ str_exn e,
                          products_compared = get_all_products context,
                          comparison_table = None, summary = None, citations = []\<rparr>, tr')
                | Inr urls \<Rightarrow>
                    (Inr \<lparr>result_query = q, answer = reply,
                          products_compared = get_all_products context,
                          comparison_table = None, summary = None, citations = urls\<rparr>, tr'))))"

text \<open>
  \<^verbatim>\<open>compare\<close>, in its two steps: the retrieval of the context, and what is done with the
  context retrieved.
\<close>

definition no_products_answer :: string where
  "no_products_answer =
     ''I couldn'' @ [CHR 0x27] @ ''t find any products to compare. Please add products first.''"

definition compare_retrieve ::
  "builtins \<Rightarrow> services \<Rightarrow> string \<Rightarrow> string list option \<Rightarrow> event list
     \<Rightarrow> (exn + RetrievalContext) \<times> event list" where
  "compare_retrieve B S q product_urls tr =
     (if given product_urls then retrieve_for_comparison B S q product_urls tr
      else retrieve B S q 10 0 tr)"

definition compare_context ::
  "builtins \<Rightarrow> services \<Rightarrow> string \<Rightarrow> RetrievalContext \<Rightarrow> event list
     \<Rightarrow> (exn + ComparisonResult) \<times> event list" where
  "compare_context B S q context tr =
     (if results context = [] then
        (Inr \<lparr>result_query = q, answer = no_products_answer, products_compared = [],
              comparison_table = None, summary = Some ''No products found.'',
              citations = []\<rparr>, tr)
      else if truthy (is_comparative (query_analysis context))
      then generate_comparison B S q context tr
      else generate_answer B S q context tr)"

definition compare ::
  "builtins \<Rightarrow> services \<Rightarrow> string \<Rightarrow> string list option \<Rightarrow> event list
     \<Rightarrow> (exn + ComparisonResult) \<times> event list" where
  "compare B S q product_urls tr =
     (case compare_retrieve B S q product_urls tr of
        (Inl e, tr1) \<Rightarrow> (Inl e, tr1)
      | (Inr context, tr1) \<Rightarrow> compare_context B S q context tr1)"

section \<open>Requests and a concrete environment\<close>

text \<open>
  The one request \<^verbatim>\<open>analyze\<close> sends (through \<^verbatim>\<open>generate_json\<close>), and the requests of
  \<^verbatim>\<open>_generate_comparison\<close> and \<^verbatim>\<open>_generate_answer\<close>, named so that statements can refer
  to them.
\<close>

definition analysis_request :: "string \<Rightarrow> chat_request" where
  "analysis_request q =
     build_request (analyze_user_prompt q)
       (Some (analyze_system_prompt
              @ ''\<newline>\<newline>You MUST respond with valid JSON only. No other text.''))
       (1/10) 3000"

definition comparison_request :: "string \<Rightarrow> string \<Rightarrow> chat_request" where
  "comparison_request q formatted_context =
     build_request (comparison_user_prompt q formatted_context)
       (Some comparison_system_prompt) (3/10) 2000"

definition answer_request :: "string \<Rightarrow> string \<Rightarrow> chat_request" where
  "answer_request q formatted_context =
     build_request (answer_user_prompt q formatted_context)
       (Some answer_system_prompt) (2/10) 1500"

text \<open>
  A concrete environment on which the functions are run: built-ins that agree with
  Python's on the ASCII texts used below, a table of decoded replies, and an index of three
  entries, two of them with the same title, that answers with the entries matching the
  filter, nearest first.
\<close>

definition example_lower :: "string \<Rightarrow> string" where
  "example_lower s =
     map (\<lambda>c. case map_of (zip ''ABCDEFGHIJKLMNOPQRSTUVWXYZ'' ''abcdefghijklmnopqrstuvwxyz'') c of
                None \<Rightarrow> c
              | Some l \<Rightarrow> l) s"

definition example_strip :: "string \<Rightarrow> string" where
  "example_strip s =
     rev (dropWhile (\<lambda>c. c \<in> set '' \<newline>'') (rev (dropWhile (\<lambda>c. c \<in> set '' \<newline>'') s)))"

definition example_loads :: "string \<Rightarrow> exn + pyval" where
  "example_loads s =
     (if s = ''{}'' then Inr (PDict [])
      else if s = ''{\"is_comparative\": true}''
      then Inr (PDict [(''is_comparative'', PBool True)])
      else if s = ''[]'' then Inr (PList [])
      else Inl (ValueError ''Expecting value''))"

definition example_builtins :: builtins where
  "example_builtins =
     \<lparr>str_lower = example_lower, str_strip = example_strip,
      str_chars = map (\<lambda>c. [c]),
      py_repr = (\<lambda>v. ''<value>''),
      format_percent = (\<lambda>x. ''<percent>''),
      json_loads = example_loads\<rparr>"

definition example_entries :: "(string \<times> string \<times> metadata_dict \<times> real) list" where
  "example_entries =
     [(''id-1'', ''# Phone A'',
       [(''url'', MStr ''https://shop.example/a''), (''title'', MStr ''Phone A''),
        (''brand'', MStr ''Acme''), (''price'', MStr ''100''), (''currency'', MStr ''$''),
        (''rating'', MFloat (9/2))],
       1/4),
      (''id-2'', ''# Phone A (renewed)'',
       [(''url'', MStr ''https://market.example/a''), (''title'', MStr ''Phone A''),
        (''brand'', MStr ''Acme Renewed''), (''price'', MStr ''80''), (''currency'', MStr ''$''),
        (''rating'', MFloat 4)],
       1/2),
      (''id-3'', ''# Phone B'',
       [(''url'', MStr ''https://shop.example/b''), (''title'', MStr ''Phone B''),
        (''brand'', MStr ''Bolt''), (''price'', MStr ''200''), (''currency'', MStr ''$''),
        (''rating'', MFloat 4)],
       3/2)]"

definition example_index :: "store_request \<Rightarrow> exn + raw_results" where
  "example_index req =
     (let hits = take (nat (n_results req))
                   (filter (\<lambda>(i, doc, md, dist).
                              case filter_metadata req of
                                None \<Rightarrow> True
                              | Some f \<Rightarrow> list_all (\<lambda>(k, v). map_of md k = Some v) f)
                           example_entries)
      in Inr \<lparr>ids = map fst hits, documents = map (fst \<circ> snd) hits,
              metadatas = map (fst \<circ> snd \<circ> snd) hits,
              distances = map (snd \<circ> snd \<circ> snd) hits\<rparr>)"

definition empty_index :: "store_request \<Rightarrow> exn + raw_results" where
  "empty_index req = Inr \<lparr>ids = [], documents = [], metadatas = [], distances = []\<rparr>"

text \<open>
  The model unreachable; and the model answering the classification request
  (\<^verbatim>\<open>max_tokens = 3000\<close>) with a JSON text and every other request with a sentence.
\<close>

definition offline_chat :: "chat_request \<Rightarrow> exn + string" where
  "offline_chat req = Inl (Exception ''Connection error.'')"

definition example_chat :: "string \<Rightarrow> chat_request \<Rightarrow> exn + string" where
  "example_chat json_reply req =
     (if max_tokens req = 3000 then Inr json_reply else Inr ''Phone A costs less.'')"

definition offline_services :: services where
  "offline_services = \<lparr>chat_api = offline_chat, index_query = example_index\<rparr>"

definition example_services :: "string \<Rightarrow> services" where
  "example_services json_reply =
     \<lparr>chat_api = example_chat json_reply, index_query = example_index\<rparr>"

definition example_result :: "string \<Rightarrow> string \<Rightarrow> real \<Rightarrow> RetrievalResult" where
  "example_result title url score =
     \<lparr>product_title = MStr title, brand = MStr ''Acme'', content = ''# '' @ title,
      metadata = [(''url'', MStr url), (''title'', MStr title), (''brand'', MStr ''Acme'')],
      relevance_score = score\<rparr>"

definition empty_services :: services where
  "empty_services = \<lparr>chat_api = example_chat ''{}'', index_query = empty_index\<rparr>"

text \<open>
  The context of the scenario "two phones, prices 100 and 200, currency \<open>$\<close>", the second
  phone without a rating.
\<close>

definition example_context :: RetrievalContext where
  "example_context =
     \<lparr>query = ''compare the prices'',
      query_analysis =
        \<lparr>original_query = ''compare the prices'', query_type = PStr ''comparison'',
         aspects = PList [PStr ''price''], entities = PList [], is_comparative = PBool True,
         expanded_query = PStr ''compare the prices''\<rparr>,
      results =
        [\<lparr>product_title = MStr ''Phone A'', brand = MStr ''Acme'', content = ''# Phone A'',
          metadata = [(''url'', MStr ''https://shop.example/a''), (''title'', MStr ''Phone A''),
                      (''brand'', MStr ''Acme''), (''price'', MStr ''100''),
                      (''currency'', MStr ''$''), (''rating'', MFloat (9/2))],
          relevance_score = 3/4\<rparr>,
         \<lparr>product_title = MStr ''Phone B'', brand = MStr ''Bolt'', content = ''# Phone B'',
          metadata = [(''url'', MStr ''https://shop.example/b''), (''title'', MStr ''Phone B''),
                      (''brand'', MStr ''Bolt''), (''price'', MStr ''200''),
                      (''currency'', MStr ''$'')],
          relevance_score = 0\<rparr>],
      total_retrieved = 2\<rparr>"

section \<open>The table row as the specification words it\<close>

text \<open>
  The row the specification gives a result, \<^verbatim>\<open>{brand, "<currency><price>", rating}\<close> read from
  the result's metadata (with \<^verbatim>\<open>"N/A"\<close> for a missing rating, as the source's
  \<^verbatim>\<open>.get("rating", "N/A")\<close>); it is compared below with what \<^verbatim>\<open>_extract_comparison_table\<close>
  builds. It is meant for metadata that has the three keys it reads.
\<close>

definition spec_row :: "builtins \<Rightarrow> RetrievalResult \<Rightarrow> metadata_dict" where
  "spec_row B r =
     [(''brand'', the (map_of (metadata r) ''brand'')),
      (''price'', MStr (py_str B (to_pyval (the (map_of (metadata r) ''currency'')))
                        @ py_str B (to_pyval (the (map_of (metadata r) ''price''))))),
      (''rating'', (case map_of (metadata r) ''rating'' of
                      None \<Rightarrow> MStr ''N/A''
                    | Some v \<Rightarrow> v))]"

section \<open>Properties of the query analyzer\<close>

lemma analyze_system_prompt_nonempty: "analyze_system_prompt \<noteq> []"
  by (simp add: analyze_system_prompt_def)

lemma generate_eq:
  "generate B S u sp t n tr =
     (case chat_api S (build_request u sp t n) of
        Inl e \<Rightarrow> Inl (Exception (''LLM generation failed: '' @ str_exn e))
      | Inr text \<Rightarrow> Inr (str_strip B text),
      tr @ [ChatCompletion (build_request u sp t n)])"
  by (simp add: generate_def Let_def split: sum.splits)

lemma analyze_try_eq:
  "analyze_try B S q tr =
     (case chat_api S (analysis_request q) of
        Inl e \<Rightarrow> Inl (Exception (''LLM generation failed: '' @ str_exn e))
      | Inr text \<Rightarrow> read_analysis B q (str_strip B text),
      tr @ [ChatCompletion (analysis_request q)])"
  by (simp add: analyze_try_def generate_json_def generate_eq analysis_request_def
      analyze_system_prompt_nonempty split: sum.splits)

lemma analyze_eq:
  "analyze B S q tr =
     (Inr (case chat_api S (analysis_request q) of
             Inl e \<Rightarrow> fallback_analysis B q
           | Inr text \<Rightarrow>
               (case read_analysis B q (str_strip B text) of
                  Inl e \<Rightarrow> fallback_analysis B q
                | Inr a \<Rightarrow> a)),
      tr @ [ChatCompletion (analysis_request q)])"
  by (simp add: analyze_def analyze_try_eq split: sum.splits)

lemma read_analysis_not_dict:
  "\<forall>data. json_loads B response \<noteq> Inr (PDict data) \<Longrightarrow> \<exists>e. read_analysis B q response = Inl e"
  by (auto simp: read_analysis_def split: sum.splits pyval.splits)

lemma fallback_analysis_eq:
  "fallback_analysis B q =
     \<lparr>original_query = q,
      query_type =
        PStr (if \<exists>kw \<in> set comparative_keywords. sublist kw (str_lower B q) then ''comparison''
              else if \<exists>w \<in> set specific_keywords. sublist w (str_lower B q) then ''specific''
              else ''general''),
      aspects =
        PList (map PStr (map fst
          (filter (\<lambda>(aspect, keywords). \<exists>kw \<in> set keywords. sublist kw (str_lower B q))
             aspect_keywords))),
      entities = PList [],
      is_comparative = PBool (\<exists>kw \<in> set comparative_keywords. sublist kw (str_lower B q)),
      expanded_query = PStr q\<rparr>"
  unfolding fallback_analysis_def Let_def list_ex_iff by (rule refl)

lemma comparative_keywords_set:
  "set comparative_keywords =
     {''compare'', ''versus'', ''vs'', ''which'', ''better'', ''best'', ''difference'',
      ''between'', ''or''}"
  unfolding comparative_keywords_def list.set by (rule refl)

lemma specific_keywords_set: "set specific_keywords = {''tell me'', ''what is'', ''how''}"
  unfolding specific_keywords_def list.set by (rule refl)

text \<open>
  Claim C5. When the classifier of \<^verbatim>\<open>analyze\<close> errors (the chat completion raises, or its reply
  does not decode to a JSON object), \<^verbatim>\<open>analyze\<close> returns, without raising, the heuristic
  result: \<open>is_comparative\<close> is true iff the lower-cased query contains one of the nine
  comparative keywords; \<open>query_type\<close> is \<^verbatim>\<open>"comparison"\<close> if comparative, else \<^verbatim>\<open>"specific"\<close>
  if the query contains \<^verbatim>\<open>"tell me"\<close>, \<^verbatim>\<open>"what is"\<close> or \<^verbatim>\<open>"how"\<close>, else \<^verbatim>\<open>"general"\<close>;
  \<open>aspects\<close> lists the entries of the aspect table one of whose keywords occurs in the
  query; \<open>entities\<close> is empty; \<open>expanded_query\<close> is the query.
\<close>

theorem analyze_fallback_on_error:
  assumes "(\<exists>e. chat_api S (analysis_request q) = Inl e) \<or>
           (\<exists>reply. chat_api S (analysis_request q) = Inr reply \<and>
                   (\<forall>data. json_loads B (str_strip B reply) \<noteq> Inr (PDict data)))"
  shows "fst (analyze B S q tr) =
         Inr \<lparr>original_query = q,
              query_type =
                PStr (if \<exists>kw \<in> {''compare'', ''versus'', ''vs'', ''which'', ''better'', ''best'',
                                 ''difference'', ''between'', ''or''}. sublist kw (str_lower B q)
                      then ''comparison''
                      else if \<exists>w \<in> {''tell me'', ''what is'', ''how''}. sublist w (str_lower B q)
                      then ''specific''
                      else ''general''),
              aspects =
                PList (map PStr (map fst
                  (filter (\<lambda>(aspect, keywords). \<exists>kw \<in> set keywords. sublist kw (str_lower B q))
                     aspect_keywords))),
              entities = PList [],
              is_comparative =
                PBool (\<exists>kw \<in> {''compare'', ''versus'', ''vs'', ''which'', ''better'', ''best'',
                               ''difference'', ''between'', ''or''}. sublist kw (str_lower B q)),
              expanded_query = PStr q\<rparr>"
proof -
  have fb: "fst (analyze B S q tr) = Inr (fallback_analysis B q)"
    using assms
  proof
    assume "\<exists>e. chat_api S (analysis_request q) = Inl e"
    then show ?thesis by (auto simp: analyze_eq)
  next
    assume "\<exists>reply. chat_api S (analysis_request q) = Inr reply \<and>
                   (\<forall>data. json_loads B (str_strip B reply) \<noteq> Inr (PDict data))"
    then obtain reply where t: "chat_api S (analysis_request q) = Inr reply"
      and nd: "\<forall>data. json_loads B (str_strip B reply) \<noteq> Inr (PDict data)"
      by blast
    obtain e where "read_analysis B q (str_strip B reply) = Inl e"
      using read_analysis_not_dict[OF nd] by blast
    with t show ?thesis by (simp add: analyze_eq)
  qed
  show ?thesis
    unfolding fb fallback_analysis_eq comparative_keywords_set specific_keywords_set
    by (rule refl)
qed


lemma example_lower_eval: "example_lower ''Compare THE Prices?'' = ''compare the prices?''"
  by (simp add: example_lower_def)

theorem analyze_fallback_on_error_witness:
  "chat_api offline_services (analysis_request ''Compare THE Prices?'')
     = Inl (Exception ''Connection error.'') \<and>
   fst (analyze example_builtins offline_services ''Compare THE Prices?'' []) =
     Inr \<lparr>original_query = ''Compare THE Prices?'', query_type = PStr ''comparison'',
          aspects = PList [PStr ''price''], entities = PList [],
          is_comparative = PBool True, expanded_query = PStr ''Compare THE Prices?''\<rparr>"
proof -
  have h: "chat_api offline_services (analysis_request ''Compare THE Prices?'')
             = Inl (Exception ''Connection error.'')"
    by (simp add: offline_services_def offline_chat_def)
  then have "(\<exists>e. chat_api offline_services (analysis_request ''Compare THE Prices?'') = Inl e) \<or>
       (\<exists>reply. chat_api offline_services (analysis_request ''Compare THE Prices?'') = Inr reply \<and>
          (\<forall>data. json_loads example_builtins (str_strip example_builtins reply) \<noteq> Inr (PDict data)))"
    by blast
  from analyze_fallback_on_error[OF this, of "[]"] h show ?thesis
    by (simp add: example_builtins_def example_lower_eval aspect_keywords_def sublist_code)
qed

text \<open>
  Claim C9. When the reply decodes to a JSON object, \<^verbatim>\<open>analyze\<close> does not fall back: each
  field the object has is taken from it, and each field it lacks gets its default:
  \<open>query_type\<close> \<^verbatim>\<open>"general"\<close>, \<open>aspects\<close> and \<open>entities\<close> the empty list, \<open>is_comparative\<close>
  false, \<open>expanded_query\<close> the query itself.
\<close>

theorem analyze_partial_json_defaults:
  assumes "chat_api S (analysis_request q) = Inr reply"
    and "json_loads B (str_strip B reply) = Inr (PDict data)"
  shows "fst (analyze B S q tr) =
         Inr \<lparr>original_query = q,
              query_type = (case map_of data ''query_type'' of
                              None \<Rightarrow> PStr ''general'' | Some v \<Rightarrow> v),
              aspects = (case map_of data ''aspects'' of None \<Rightarrow> PList [] | Some v \<Rightarrow> v),
              entities = (case map_of data ''entities'' of None \<Rightarrow> PList [] | Some v \<Rightarrow> v),
              is_comparative = (case map_of data ''is_comparative'' of
                                  None \<Rightarrow> PBool False | Some v \<Rightarrow> v),
              expanded_query = (case map_of data ''expanded_query'' of
                                  None \<Rightarrow> PStr q | Some v \<Rightarrow> v)\<rparr>"
  using assms by (simp add: analyze_eq read_analysis_def dict_get_def)

theorem analyze_partial_json_defaults_witness:
  "chat_api (example_services '' {} '') (analysis_request ''compare the prices'') = Inr '' {} '' \<and>
   json_loads example_builtins (str_strip example_builtins '' {} '') = Inr (PDict []) \<and>
   fst (analyze example_builtins (example_services '' {} '') ''compare the prices'' []) =
     Inr \<lparr>original_query = ''compare the prices'', query_type = PStr ''general'',
          aspects = PList [], entities = PList [], is_comparative = PBool False,
          expanded_query = PStr ''compare the prices''\<rparr> \<and>
   fst (analyze example_builtins (example_services '' {} '') ''compare the prices'' []) \<noteq>
     Inr (fallback_analysis example_builtins ''compare the prices'')"
proof -
  have h1: "chat_api (example_services '' {} '') (analysis_request ''compare the prices'') = Inr '' {} ''"
    by (simp add: example_services_def example_chat_def analysis_request_def build_request_def)
  have h2: "json_loads example_builtins (str_strip example_builtins '' {} '') = Inr (PDict [])"
    by (simp add: example_builtins_def example_strip_def example_loads_def)
  have fb: "is_comparative (fallback_analysis example_builtins ''compare the prices'') = PBool True"
    by (simp add: fallback_analysis_eq comparative_keywords_def example_builtins_def
        example_lower_def sublist_code)
  have r: "fst (analyze example_builtins (example_services '' {} '') ''compare the prices'' []) =
     Inr \<lparr>original_query = ''compare the prices'', query_type = PStr ''general'',
          aspects = PList [], entities = PList [], is_comparative = PBool False,
          expanded_query = PStr ''compare the prices''\<rparr>"
    using analyze_partial_json_defaults[OF h1 h2, of "[]"] by simp
  have "is_comparative a = PBool False"
    if "fst (analyze example_builtins (example_services '' {} '') ''compare the prices'' []) = Inr a"
    for a
    using that r by auto
  with fb have "fst (analyze example_builtins (example_services '' {} '') ''compare the prices'' [])
      \<noteq> Inr (fallback_analysis example_builtins ''compare the prices'')"
    by fastforce
  with h1 h2 r show ?thesis by blast
qed

section \<open>Properties of diversity filtering\<close>

lemma diversity_loop_bound:
  assumes "seen = product_title ` set d"
    and "\<And>t. int (length (filter (\<lambda>r. product_title r = t) d)) \<le> max 1 cap"
  shows "int (length (filter (\<lambda>r. product_title r = t) (diversity_loop rs cap seen d))) \<le> max 1 cap"
  using assms
proof (induction rs arbitrary: seen d)
  case Nil
  then show ?case by simp
next
  case (Cons x xs)
  show ?case
  proof (cases "product_title x \<in> seen")
    case False
    have "\<forall>r\<in>set d. product_title r \<noteq> product_title x"
      using False Cons.prems(1) by (metis imageI)
    then have nil: "filter (\<lambda>r. product_title r = product_title x) d = []"
      by (simp add: filter_empty_conv)
    have "int (length (filter (\<lambda>r. product_title r = t) (diversity_loop xs cap (insert (product_title x) seen) (d @ [x])))) \<le> max 1 cap"
    proof (rule Cons.IH)
      show "insert (product_title x) seen = product_title ` set (d @ [x])"
        using Cons.prems(1) by auto
    next
      fix u
      show "int (length (filter (\<lambda>r. product_title r = u) (d @ [x]))) \<le> max 1 cap"
        using Cons.prems(2)[of u] nil by (cases "product_title x = u") auto
    qed
    with False show ?thesis by simp
  next
    case True
    show ?thesis
    proof (cases "int (length (filter (\<lambda>r. product_title r = product_title x) d)) < cap")
      case lt: True
      have "int (length (filter (\<lambda>r. product_title r = t) (diversity_loop xs cap seen (d @ [x])))) \<le> max 1 cap"
      proof (rule Cons.IH)
        show "seen = product_title ` set (d @ [x])"
          using Cons.prems(1) True by auto
      next
        fix u
        show "int (length (filter (\<lambda>r. product_title r = u) (d @ [x]))) \<le> max 1 cap"
          using Cons.prems(2)[of u] lt by (cases "product_title x = u") auto
      qed
      with True lt show ?thesis by simp
    next
      case ge: False
      have "int (length (filter (\<lambda>r. product_title r = t) (diversity_loop xs cap seen d))) \<le> max 1 cap"
        by (rule Cons.IH) (use Cons.prems in auto)
      with True ge show ?thesis by simp
    qed
  qed
qed

lemma diversity_loop_fixpoint:
  assumes "seen = product_title ` set d"
    and "\<And>t. int (length (filter (\<lambda>r. product_title r = t) (d @ xs))) \<le> max 1 cap"
  shows "diversity_loop xs cap seen d = d @ xs"
  using assms
proof (induction xs arbitrary: seen d)
  case Nil
  then show ?case by simp
next
  case (Cons x xs)
  have bound: "\<And>t. int (length (filter (\<lambda>r. product_title r = t) ((d @ [x]) @ xs))) \<le> max 1 cap"
    using Cons.prems(2) by simp
  show ?case
  proof (cases "product_title x \<in> seen")
    case False
    have "diversity_loop xs cap (insert (product_title x) seen) (d @ [x]) = (d @ [x]) @ xs"
      by (rule Cons.IH) (use Cons.prems(1) bound in auto)
    with False show ?thesis by simp
  next
    case True
    then have "filter (\<lambda>r. product_title r = product_title x) d \<noteq> []"
      using Cons.prems(1) by (auto simp: filter_empty_conv)
    then have pos: "1 \<le> length (filter (\<lambda>r. product_title r = product_title x) d)"
      by (cases "filter (\<lambda>r. product_title r = product_title x) d") auto
    have lt: "int (length (filter (\<lambda>r. product_title r = product_title x) d)) < cap"
      using Cons.prems(2)[of "product_title x"] pos by auto
    have "diversity_loop xs cap seen (d @ [x]) = (d @ [x]) @ xs"
      by (rule Cons.IH) (use Cons.prems(1) True bound in auto)
    with True lt show ?thesis by simp
  qed
qed

lemma ensure_diversity_idem: "ensure_diversity (ensure_diversity rs cap) cap = ensure_diversity rs cap"
proof -
  have b: "\<And>t. int (length (filter (\<lambda>r. product_title r = t) (ensure_diversity rs cap))) \<le> max 1 cap"
    unfolding ensure_diversity_def by (rule diversity_loop_bound) auto
  have "diversity_loop (ensure_diversity rs cap) cap {} [] = [] @ ensure_diversity rs cap"
    by (rule diversity_loop_fixpoint) (use b in auto)
  then show ?thesis by (simp add: ensure_diversity_def)
qed

lemma diversity_loop_subseq: "\<exists>ys. diversity_loop rs cap seen d = d @ ys \<and> subseq ys rs"
proof (induction rs arbitrary: seen d)
  case Nil
  then show ?case by simp
next
  case (Cons x xs)
  obtain ys1 where y1: "diversity_loop xs cap (insert (product_title x) seen) (d @ [x]) = (d @ [x]) @ ys1" "subseq ys1 xs"
    using Cons.IH by blast
  obtain ys2 where y2: "diversity_loop xs cap seen (d @ [x]) = (d @ [x]) @ ys2" "subseq ys2 xs"
    using Cons.IH by blast
  obtain ys3 where y3: "diversity_loop xs cap seen d = d @ ys3" "subseq ys3 xs"
    using Cons.IH by blast
  show ?case
    using y1 y2 y3 by (auto intro: subseq_Cons2 list_emb_Cons)
qed

lemma diversity_loop_find:
  assumes "seen = product_title ` set d"
  shows "find (\<lambda>r. product_title r = t) (diversity_loop rs cap seen d)
         = (case find (\<lambda>r. product_title r = t) d of Some r \<Rightarrow> Some r
            | None \<Rightarrow> find (\<lambda>r. product_title r = t) rs)"
  using assms
proof (induction rs arbitrary: seen d)
  case Nil
  then show ?case by (simp split: option.splits)
next
  case (Cons x xs)
  have fa: "find (\<lambda>r. product_title r = t) (d @ [x]) =
      (case find (\<lambda>r. product_title r = t) d of Some r \<Rightarrow> Some r
       | None \<Rightarrow> if product_title x = t then Some x else None)"
    by (induction d) auto
  have inseen: "t \<in> seen \<Longrightarrow> find (\<lambda>r. product_title r = t) d \<noteq> None"
    using Cons.prems by (auto simp: find_None_iff)
  show ?case
  proof (cases "product_title x \<in> seen")
    case False
    have "find (\<lambda>r. product_title r = t) (diversity_loop xs cap (insert (product_title x) seen) (d @ [x]))
       = (case find (\<lambda>r. product_title r = t) (d @ [x]) of Some r \<Rightarrow> Some r
            | None \<Rightarrow> find (\<lambda>r. product_title r = t) xs)"
      by (rule Cons.IH) (use Cons.prems in auto)
    with False show ?thesis by (simp add: fa split: option.splits)
  next
    case True
    have a: "find (\<lambda>r. product_title r = t) (diversity_loop xs cap seen (d @ [x]))
       = (case find (\<lambda>r. product_title r = t) (d @ [x]) of Some r \<Rightarrow> Some r
            | None \<Rightarrow> find (\<lambda>r. product_title r = t) xs)"
      by (rule Cons.IH) (use Cons.prems True in auto)
    have b: "find (\<lambda>r. product_title r = t) (diversity_loop xs cap seen d)
       = (case find (\<lambda>r. product_title r = t) d of Some r \<Rightarrow> Some r
            | None \<Rightarrow> find (\<lambda>r. product_title r = t) xs)"
      by (rule Cons.IH) (use Cons.prems in auto)
    show ?thesis
      using True a b inseen by (auto simp: fa split: option.splits)
  qed
qed

lemma count_le_one_distinct:
  "(\<And>t. length (filter (\<lambda>r. f r = t) xs) \<le> 1) \<Longrightarrow> distinct (map f xs)"
proof (induction xs)
  case Nil
  then show ?case by simp
next
  case (Cons x xs)
  have "length (filter (\<lambda>r. f r = t) xs) \<le> 1" for t
    using Cons.prems[of t] by (simp split: if_splits)
  then have d: "distinct (map f xs)" by (rule Cons.IH)
  have "filter (\<lambda>r. f r = f x) xs = []"
    using Cons.prems[of "f x"] by simp
  then have "f x \<notin> f ` set xs"
    by (auto simp: filter_empty_conv)
  with d show ?case by simp
qed

lemma ensure_diversity_bound:
  "int (length (filter (\<lambda>r. product_title r = t) (ensure_diversity rs cap))) \<le> max 1 cap"
  unfolding ensure_diversity_def by (rule diversity_loop_bound) auto

lemma ensure_diversity_distinct: "distinct (map product_title (ensure_diversity rs 1))"
proof (rule count_le_one_distinct)
  fix t
  show "length (filter (\<lambda>r. product_title r = t) (ensure_diversity rs 1)) \<le> 1"
    using ensure_diversity_bound[of t rs 1] by simp
qed

lemma ensure_diversity_subseq: "subseq (ensure_diversity rs cap) rs"
  using diversity_loop_subseq[of rs cap "{}" "[]"] by (auto simp: ensure_diversity_def)

lemma ensure_diversity_find:
  "find (\<lambda>r. product_title r = t) (ensure_diversity rs cap) = find (\<lambda>r. product_title r = t) rs"
  unfolding ensure_diversity_def by (simp add: diversity_loop_find)

lemma retrieve_results:
  assumes "retrieve B S q n m tr = (Inr context, tr')"
  shows "\<exists>raw found. index_query S \<lparr>query_text = expanded_query (query_analysis context),
                                       n_results = n, filter_metadata = None\<rparr> = Inr raw \<and>
           process_results raw m [0..<length (ids raw)] [] = Inr found \<and>
           results context = (if truthy (is_comparative (query_analysis context)) \<and> found \<noteq> []
                              then ensure_diversity found 1 else found)"
  using assms
  by (auto simp: retrieve_def analyze_eq Let_def split: sum.splits if_splits)

text \<open>
  Claim C10. Diversity filtering is idempotent: for every list and every cap of at least 1,
  filtering the filtered list again changes nothing.
\<close>

theorem ensure_diversity_idempotent:
  "1 \<le> max_per_product \<Longrightarrow>
   ensure_diversity (ensure_diversity rs max_per_product) max_per_product
     = ensure_diversity rs max_per_product"
  by (rule ensure_diversity_idem)

theorem ensure_diversity_idempotent_witness:
  "(1::int) \<le> 2 \<and>
   ensure_diversity
     [example_result ''Phone A'' ''u1'' 1, example_result ''Phone A'' ''u2'' (1/2),
      example_result ''Phone B'' ''u3'' (1/3), example_result ''Phone A'' ''u4'' (1/4)] 2
     = [example_result ''Phone A'' ''u1'' 1, example_result ''Phone A'' ''u2'' (1/2),
        example_result ''Phone B'' ''u3'' (1/3)] \<and>
   ensure_diversity
     (ensure_diversity
        [example_result ''Phone A'' ''u1'' 1, example_result ''Phone A'' ''u2'' (1/2),
         example_result ''Phone B'' ''u3'' (1/3), example_result ''Phone A'' ''u4'' (1/4)] 2) 2
     = [example_result ''Phone A'' ''u1'' 1, example_result ''Phone A'' ''u2'' (1/2),
        example_result ''Phone B'' ''u3'' (1/3)]"
proof -
  have h: "(1::int) \<le> 2" by simp
  have e: "ensure_diversity
     [example_result ''Phone A'' ''u1'' 1, example_result ''Phone A'' ''u2'' (1/2),
      example_result ''Phone B'' ''u3'' (1/3), example_result ''Phone A'' ''u4'' (1/4)] 2
     = [example_result ''Phone A'' ''u1'' 1, example_result ''Phone A'' ''u2'' (1/2),
        example_result ''Phone B'' ''u3'' (1/3)]"
    by (simp add: ensure_diversity_def example_result_def)
  from ensure_diversity_idempotent[OF h,
      of "[example_result ''Phone A'' ''u1'' 1, example_result ''Phone A'' ''u2'' (1/2),
           example_result ''Phone B'' ''u3'' (1/3), example_result ''Phone A'' ''u4'' (1/4)]"]
  show ?thesis
    unfolding e using h e by simp
qed

text \<open>
  Claim C3. With the default cap \<open>max_per_product = 1\<close>, diversity filtering returns a list
  in which no product title appears twice, in the order of the input (it is a subsequence
  of it), and in which the entry kept for a title is the first entry of the input with that
  title. \<^verbatim>\<open>retrieve\<close> applies it whenever the analysis is comparative, so the results of a
  comparative \<^verbatim>\<open>retrieve\<close> have pairwise different titles.
\<close>

theorem diversity_default_cap:
  "distinct (map product_title (ensure_diversity rs 1)) \<and>
   subseq (ensure_diversity rs 1) rs \<and>
   (\<forall>t. find (\<lambda>r. product_title r = t) (ensure_diversity rs 1)
        = find (\<lambda>r. product_title r = t) rs) \<and>
   (retrieve B S q n m tr = (Inr context, tr') \<longrightarrow>
    truthy (is_comparative (query_analysis context)) \<longrightarrow>
      distinct (map product_title (results context)))"
proof -
  have "distinct (map product_title (results context))"
    if r: "retrieve B S q n m tr = (Inr context, tr')"
      and c: "truthy (is_comparative (query_analysis context))"
  proof -
    obtain found where "results context = (if found \<noteq> [] then ensure_diversity found 1 else found)"
      using retrieve_results[OF r] c by auto
    then show ?thesis
      by (cases "found = []") (simp_all add: ensure_diversity_distinct)
  qed
  then show ?thesis
    by (simp add: ensure_diversity_distinct ensure_diversity_subseq ensure_diversity_find)
qed

theorem diversity_default_cap_witness:
  "isl (fst (retrieve example_builtins (example_services ''{\"is_comparative\": true}'')
               ''phones'' 10 0 [])) = False \<and>
   truthy (is_comparative (query_analysis (projr (fst
     (retrieve example_builtins (example_services ''{\"is_comparative\": true}'')
        ''phones'' 10 0 []))))) \<and>
   map product_title (results (projr (fst
     (retrieve example_builtins (example_services ''{\"is_comparative\": true}'')
        ''phones'' 10 0 []))))
     = [MStr ''Phone A'', MStr ''Phone B''] \<and>
   distinct (map product_title (results (projr (fst
     (retrieve example_builtins (example_services ''{\"is_comparative\": true}'')
        ''phones'' 10 0 [])))))"
proof -
  let ?r = "retrieve example_builtins (example_services ''{\"is_comparative\": true}'')
              ''phones'' 10 0 []"
  have ev: "map_sum id (\<lambda>c. (truthy (is_comparative (query_analysis c)),
                              map product_title (results c))) (fst ?r)
            = Inr (True, [MStr ''Phone A'', MStr ''Phone B''])"
    by (simp add: retrieve_def analyze_eq example_services_def example_chat_def
        analysis_request_def build_request_def example_builtins_def example_strip_def
        example_loads_def read_analysis_def dict_get_def example_index_def
        example_entries_def Let_def list_item_def dict_item_def upt_rec ensure_diversity_def)
  then obtain c where c: "fst ?r = Inr c" "truthy (is_comparative (query_analysis c))"
    "map product_title (results c) = [MStr ''Phone A'', MStr ''Phone B'']"
    by (cases "fst ?r") auto
  have r: "?r = (Inr c, snd ?r)"
    using c(1) by (cases ?r) simp
  have "distinct (map product_title (results c))"
    using diversity_default_cap[of "[]" example_builtins
        "example_services ''{\"is_comparative\": true}''" "''phones''" 10 0 "[]" c "snd ?r"]
      r c(2)
    by blast
  with c show ?thesis by simp
qed

section \<open>Relevance scores\<close>

lemma clamp_distance:
  "0 \<le> d \<Longrightarrow> max 0 (1 - d) = max 0 (min 1 (1 - d :: real))"
  by simp

lemma process_results_relevance:
  assumes "process_results raw m indices acc = Inr rs"
    and "\<forall>r\<in>set acc. \<exists>d\<in>set (distances raw). relevance_score r = max 0 (1 - d)"
  shows "\<forall>r\<in>set rs. \<exists>d\<in>set (distances raw). relevance_score r = max 0 (1 - d)"
  using assms
proof (induction indices arbitrary: acc)
  case Nil
  then show ?case by simp
next
  case (Cons i rest)
  from Cons.prems(1) obtain d where d: "list_item (distances raw) i = Inr d"
    by (auto split: sum.splits)
  then have mem: "d \<in> set (distances raw)"
    by (auto simp: list_item_def split: if_splits)
  show ?case
  proof (cases "max 0 (1 - d) < m")
    case True
    with Cons.prems d have "process_results raw m rest acc = Inr rs"
      by (simp add: Let_def)
    from Cons.IH[OF this Cons.prems(2)] show ?thesis .
  next
    case False
    with Cons.prems(1) d obtain md title b doc where
      step: "process_results raw m rest
               (acc @ [\<lparr>product_title = title, brand = b, content = doc, metadata = md,
                        relevance_score = max 0 (1 - d)\<rparr>]) = Inr rs"
      by (auto simp: Let_def split: sum.splits)
    have "\<forall>r\<in>set (acc @ [\<lparr>product_title = title, brand = b, content = doc, metadata = md,
                        relevance_score = max 0 (1 - d)\<rparr>]).
            \<exists>d\<in>set (distances raw). relevance_score r = max 0 (1 - d)"
      using Cons.prems(2) mem by auto
    from Cons.IH[OF step this] show ?thesis .
  qed
qed

lemma retrieve_relevance_clamped:
  assumes "retrieve B S q n m tr = (Inr context, tr')"
    and "r \<in> set (results context)"
  shows "\<exists>raw d. index_query S \<lparr>query_text = expanded_query (query_analysis context),
                               n_results = n, filter_metadata = None\<rparr> = Inr raw \<and>
           d \<in> set (distances raw) \<and> relevance_score r = max 0 (1 - d) \<and>
           0 \<le> relevance_score r \<and> (0 \<le> d \<longrightarrow> relevance_score r \<le> 1)"
proof -
  obtain raw found where raw: "index_query S \<lparr>query_text = expanded_query (query_analysis context),
                                       n_results = n, filter_metadata = None\<rparr> = Inr raw"
    and pr: "process_results raw m [0..<length (ids raw)] [] = Inr found"
    and res: "results context = (if truthy (is_comparative (query_analysis context)) \<and> found \<noteq> []
                              then ensure_diversity found 1 else found)"
    using retrieve_results[OF assms(1)] by blast
  have "r \<in> set found"
  proof (cases "truthy (is_comparative (query_analysis context)) \<and> found \<noteq> []")
    case True
    then have "subseq (results context) found"
      using res ensure_diversity_subseq[of found 1] by simp
    from list_emb_set[OF this assms(2)] show ?thesis by auto
  next
    case False
    then show ?thesis using res assms(2) by auto
  qed
  with process_results_relevance[OF pr] obtain d where
    "d \<in> set (distances raw)" "relevance_score r = max 0 (1 - d)"
    by auto
  with raw show ?thesis by auto
qed

text \<open>
  Claim C1. The relevance score is \<open>clamp(1 - distance, 0, 1)\<close> on both paths. \<^verbatim>\<open>retrieve\<close>
  computes \<^verbatim>\<open>max(0.0, 1.0 - distance)\<close> (\<open>retrieve_relevance_clamped\<close>), but the targeted path
  of \<^verbatim>\<open>retrieve_for_comparison\<close> computes \<^verbatim>\<open>1.0 - distance\<close>: for the entry at distance
  \<open>3/2\<close> it returns the score \<open>-1/2\<close>, where \<^verbatim>\<open>retrieve\<close> returns 0 for the same entry.
\<close>

theorem targeted_relevance_not_clamped:
  "map_sum id (map relevance_score \<circ> results)
     (fst (retrieve_for_comparison example_builtins (example_services ''{}'') ''compare''
             (Some [''https://shop.example/b'']) []))
     = Inr [- 1 / 2] \<and>
   map_sum id (map relevance_score \<circ> results)
     (fst (retrieve example_builtins (example_services ''{}'') ''compare'' 20 0 []))
     = Inr [3 / 4, 1 / 2, 0]"
proof -
  have "map_sum id (map relevance_score \<circ> results)
     (fst (retrieve_for_comparison example_builtins (example_services ''{}'') ''compare''
             (Some [''https://shop.example/b'']) []))
     = Inr [- 1 / 2]"
    by (simp add: retrieve_for_comparison_def analyze_eq example_services_def
        example_index_def example_entries_def url_request_def targeted_result_def
        list_item_def dict_item_def Let_def split: sum.splits)
  moreover have "map_sum id (map relevance_score \<circ> results)
     (fst (retrieve example_builtins (example_services ''{}'') ''compare'' 20 0 []))
     = Inr [3 / 4, 1 / 2, 0]"
    by (simp add: retrieve_def analyze_eq example_services_def example_chat_def
        analysis_request_def build_request_def example_builtins_def example_strip_def
        example_loads_def read_analysis_def dict_get_def example_index_def
        example_entries_def Let_def list_item_def dict_item_def upt_rec)
  ultimately show ?thesis by simp
qed

section \<open>Properties of targeted retrieval\<close>

lemma targeted_loop_spec:
  assumes "targeted_loop S q urls acc tr = (Inr found, tr')"
  shows "tr' = tr @ map (\<lambda>u. StoreQuery (url_request q u)) urls \<and>
         (\<exists>new. found = acc @ new \<and>
            list_all2 (\<lambda>r u. \<exists>raw. index_query S (url_request q u) = Inr raw \<and> ids raw \<noteq> [] \<and>
                                 targeted_result raw = Inr r)
              new
              (filter (\<lambda>u. \<exists>raw. index_query S (url_request q u) = Inr raw \<and> ids raw \<noteq> []) urls))"
  using assms
proof (induction urls arbitrary: acc tr)
  case Nil
  then show ?case by simp
next
  case (Cons u us)
  show ?case
  proof (cases "index_query S (url_request q u)")
    case (Inl e)
    with Cons.prems show ?thesis by simp
  next
    case (Inr raw)
    show ?thesis
    proof (cases "ids raw = []")
      case True
      with Inr Cons.prems
      have "targeted_loop S q us acc (tr @ [StoreQuery (url_request q u)]) = (Inr found, tr')"
        by simp
      from Cons.IH[OF this] Inr True show ?thesis by simp
    next
      case False
      show ?thesis
      proof (cases "targeted_result raw")
        case (Inl e)
        with Inr False Cons.prems show ?thesis by simp
      next
        case r: (Inr result)
        with Inr False Cons.prems
        have "targeted_loop S q us (acc @ [result]) (tr @ [StoreQuery (url_request q u)])
                = (Inr found, tr')"
          by simp
        from Cons.IH[OF this] obtain new where
          t: "tr' = (tr @ [StoreQuery (url_request q u)]) @ map (\<lambda>u. StoreQuery (url_request q u)) us"
          and f: "found = (acc @ [result]) @ new"
          and l: "list_all2 (\<lambda>r u. \<exists>raw. index_query S (url_request q u) = Inr raw \<and> ids raw \<noteq> [] \<and>
                                 targeted_result raw = Inr r)
              new
              (filter (\<lambda>u. \<exists>raw. index_query S (url_request q u) = Inr raw \<and> ids raw \<noteq> []) us)"
          by blast
        have "found = acc @ (result # new)" using f by simp
        moreover have "list_all2 (\<lambda>r u. \<exists>raw. index_query S (url_request q u) = Inr raw \<and> ids raw \<noteq> [] \<and>
                                 targeted_result raw = Inr r)
              (result # new)
              (filter (\<lambda>u. \<exists>raw. index_query S (url_request q u) = Inr raw \<and> ids raw \<noteq> []) (u # us))"
          using l Inr False r by simp
        ultimately show ?thesis using t by auto
      qed
    qed
  qed
qed

lemma targeted_result_metadata:
  "targeted_result raw = Inr r \<Longrightarrow> list_item (metadatas raw) 0 = Inr (metadata r)"
  by (auto simp: targeted_result_def split: sum.splits)

lemma retrieve_for_comparison_targeted:
  assumes "urls \<noteq> []"
    and "retrieve_for_comparison B S q (Some urls) tr = (Inr context, tr')"
  shows "\<exists>tr1. targeted_loop S q urls [] tr = (Inr (results context), tr1) \<and>
           tr' = tr1 @ [ChatCompletion (analysis_request q)] \<and>
           total_retrieved context = int (length (results context))"
  using assms
  by (cases urls) (auto simp: retrieve_for_comparison_def analyze_eq split: sum.splits prod.splits)

lemma targeted_loop_total:
  assumes "\<forall>u\<in>set urls. \<exists>raw. index_query S (url_request q u) = Inr raw \<and>
                             (ids raw = [] \<or> (\<exists>r. targeted_result raw = Inr r))"
  shows "\<exists>found. targeted_loop S q urls acc tr = (Inr found, tr @ map (\<lambda>u. StoreQuery (url_request q u)) urls)"
  using assms
proof (induction urls arbitrary: acc tr)
  case Nil
  then show ?case by simp
next
  case (Cons u us)
  from Cons.prems obtain raw where raw: "index_query S (url_request q u) = Inr raw"
    and ok: "ids raw = [] \<or> (\<exists>r. targeted_result raw = Inr r)"
    by auto
  have rest: "\<forall>u\<in>set us. \<exists>raw. index_query S (url_request q u) = Inr raw \<and>
                             (ids raw = [] \<or> (\<exists>r. targeted_result raw = Inr r))"
    using Cons.prems by simp
  show ?case
  proof (cases "ids raw = []")
    case True
    from Cons.IH[OF rest, of acc "tr @ [StoreQuery (url_request q u)]"] raw True
    show ?thesis by simp
  next
    case False
    with ok obtain r where r: "targeted_result raw = Inr r" by blast
    from Cons.IH[OF rest, of "acc @ [r]" "tr @ [StoreQuery (url_request q u)]"] raw False r
    show ?thesis by simp
  qed
qed

lemma retrieve_for_comparison_total:
  assumes "urls \<noteq> []"
    and "\<forall>u\<in>set urls. \<exists>raw. index_query S (url_request q u) = Inr raw \<and>
                             (ids raw = [] \<or> (\<exists>r. targeted_result raw = Inr r))"
  shows "\<exists>context tr'. retrieve_for_comparison B S q (Some urls) tr = (Inr context, tr')"
proof -
  obtain u us where urls: "urls = u # us"
    using assms(1) by (cases urls) auto
  obtain found where "targeted_loop S q urls [] tr
      = (Inr found, tr @ map (\<lambda>u. StoreQuery (url_request q u)) urls)"
    using targeted_loop_total[OF assms(2)] by blast
  then show ?thesis
    unfolding urls by (simp add: retrieve_for_comparison_def analyze_eq)
qed

text \<open>
  Claim C4. With a non-empty key list, \<^verbatim>\<open>retrieve_for_comparison\<close> sends one index query per
  key, in the order of the keys, each with \<open>n_results = 1\<close> and the filter
  \<^verbatim>\<open>{"url": key}\<close>, and then analyzes the query once; a key whose reply has no id adds
  nothing, and every other key adds the first entry of its reply, so that there are at most
  as many results as keys and, the index returning only entries that match the filter,
  their source keys are a subsequence of the keys. With no key list, or an empty one, the
  call is \<^verbatim>\<open>retrieve(query, max_results=20)\<close>. The call returns, raising nothing, whenever
  the index answers every key, each reply either without an id (a key with no match) or
  with a first entry that has a title, a brand, a document and a distance.
\<close>

theorem retrieve_for_comparison_keys:
  "retrieve_for_comparison B S q None tr = retrieve B S q 20 0 tr \<and>
   retrieve_for_comparison B S q (Some []) tr = retrieve B S q 20 0 tr \<and>
   (urls \<noteq> [] \<longrightarrow> retrieve_for_comparison B S q (Some urls) tr = (Inr context, tr') \<longrightarrow>
      tr' = tr @ map (\<lambda>u. StoreQuery \<lparr>query_text = PStr q, n_results = 1,
                                      filter_metadata = Some [(''url'', MStr u)]\<rparr>) urls
               @ [ChatCompletion (analysis_request q)] \<and>
      list_all2 (\<lambda>r u. \<exists>raw. index_query S (url_request q u) = Inr raw \<and> ids raw \<noteq> [] \<and>
                           targeted_result raw = Inr r)
        (results context)
        (filter (\<lambda>u. \<exists>raw. index_query S (url_request q u) = Inr raw \<and> ids raw \<noteq> []) urls) \<and>
      length (results context) \<le> length urls \<and>
      total_retrieved context = int (length (results context)) \<and>
      ((\<forall>u raw md. index_query S (url_request q u) = Inr raw \<longrightarrow>
                    list_item (metadatas raw) 0 = Inr md \<longrightarrow> map_of md ''url'' = Some (MStr u)) \<longrightarrow>
       subseq (map (\<lambda>r. map_of (metadata r) ''url'') (results context))
              (map (\<lambda>u. Some (MStr u)) urls))) \<and>
   (urls \<noteq> [] \<longrightarrow>
      (\<forall>u\<in>set urls. \<exists>raw. index_query S (url_request q u) = Inr raw \<and>
                          (ids raw = [] \<or> (\<exists>r. targeted_result raw = Inr r))) \<longrightarrow>
      (\<exists>returned trace. retrieve_for_comparison B S q (Some urls) tr = (Inr returned, trace)))"
proof -
  have none: "retrieve_for_comparison B S q None tr = retrieve B S q 20 0 tr"
    by (simp add: retrieve_for_comparison_def)
  have nil: "retrieve_for_comparison B S q (Some []) tr = retrieve B S q 20 0 tr"
    by (simp add: retrieve_for_comparison_def)
  have keys: "tr' = tr @ map (\<lambda>u. StoreQuery \<lparr>query_text = PStr q, n_results = 1,
                                      filter_metadata = Some [(''url'', MStr u)]\<rparr>) urls
               @ [ChatCompletion (analysis_request q)] \<and>
      list_all2 (\<lambda>r u. \<exists>raw. index_query S (url_request q u) = Inr raw \<and> ids raw \<noteq> [] \<and>
                           targeted_result raw = Inr r)
        (results context)
        (filter (\<lambda>u. \<exists>raw. index_query S (url_request q u) = Inr raw \<and> ids raw \<noteq> []) urls) \<and>
      length (results context) \<le> length urls \<and>
      total_retrieved context = int (length (results context)) \<and>
      ((\<forall>u raw md. index_query S (url_request q u) = Inr raw \<longrightarrow>
                    list_item (metadatas raw) 0 = Inr md \<longrightarrow> map_of md ''url'' = Some (MStr u)) \<longrightarrow>
       subseq (map (\<lambda>r. map_of (metadata r) ''url'') (results context))
              (map (\<lambda>u. Some (MStr u)) urls))"
    if ne: "urls \<noteq> []" and ret: "retrieve_for_comparison B S q (Some urls) tr = (Inr context, tr')"
  proof -
    let ?matched = "\<lambda>u. \<exists>raw. index_query S (url_request q u) = Inr raw \<and> ids raw \<noteq> []"
    let ?from = "\<lambda>r u. \<exists>raw. index_query S (url_request q u) = Inr raw \<and> ids raw \<noteq> [] \<and>
                           targeted_result raw = Inr r"
    obtain tr1 where loop: "targeted_loop S q urls [] tr = (Inr (results context), tr1)"
      and tr': "tr' = tr1 @ [ChatCompletion (analysis_request q)]"
      and total: "total_retrieved context = int (length (results context))"
      using retrieve_for_comparison_targeted[OF ne ret] by blast
    from targeted_loop_spec[OF loop]
    have tr1: "tr1 = tr @ map (\<lambda>u. StoreQuery (url_request q u)) urls"
      and l: "list_all2 ?from (results context) (filter ?matched urls)"
      by auto
    have len: "length (results context) \<le> length urls"
      using list_all2_lengthD[OF l] length_filter_le[of ?matched urls] by simp
    have sub: "subseq (map (\<lambda>r. map_of (metadata r) ''url'') (results context))
              (map (\<lambda>u. Some (MStr u)) urls)"
      if h: "\<forall>u raw md. index_query S (url_request q u) = Inr raw \<longrightarrow>
                    list_item (metadatas raw) 0 = Inr md \<longrightarrow> map_of md ''url'' = Some (MStr u)"
    proof -
      have "list_all2 (\<lambda>r u. map_of (metadata r) ''url'' = Some (MStr u))
              (results context) (filter ?matched urls)"
        using l h by (auto elim!: list_all2_mono dest: targeted_result_metadata)
      then have "map (\<lambda>r. map_of (metadata r) ''url'') (results context)
                 = map (\<lambda>u. Some (MStr u)) (filter ?matched urls)"
        by (induction rule: list_all2_induct) auto
      then show ?thesis
        by (simp add: subseq_map)
    qed
    show ?thesis
      using tr' tr1 l len total sub by (simp add: url_request_def)
  qed
  have total: "\<exists>returned trace. retrieve_for_comparison B S q (Some urls) tr = (Inr returned, trace)"
    if "urls \<noteq> []"
      and "\<forall>u\<in>set urls. \<exists>raw. index_query S (url_request q u) = Inr raw \<and>
                          (ids raw = [] \<or> (\<exists>r. targeted_result raw = Inr r))"
    using that by (rule retrieve_for_comparison_total)
  show ?thesis
    using none nil keys total by blast
qed

lemma example_index_honours_filter:
  assumes "index_query (example_services j) (url_request q u) = Inr raw"
    and "list_item (metadatas raw) 0 = Inr md"
  shows "map_of md ''url'' = Some (MStr u)"
  using assms
  by (auto simp: example_services_def example_index_def url_request_def example_entries_def
      list_item_def Let_def split: if_splits)

theorem retrieve_for_comparison_keys_witness:
  "[''https://shop.example/b'', ''https://nowhere.example/x'', ''https://shop.example/a''] \<noteq> [] \<and>
   map_sum id (map (\<lambda>r. map_of (metadata r) ''url'') \<circ> results)
     (fst (retrieve_for_comparison example_builtins (example_services ''{}'') ''compare''
        (Some [''https://shop.example/b'', ''https://nowhere.example/x'',
               ''https://shop.example/a'']) []))
     = Inr [Some (MStr ''https://shop.example/b''), Some (MStr ''https://shop.example/a'')] \<and>
   snd (retrieve_for_comparison example_builtins (example_services ''{}'') ''compare''
        (Some [''https://shop.example/b'', ''https://nowhere.example/x'',
               ''https://shop.example/a'']) [])
     = [StoreQuery (url_request ''compare'' ''https://shop.example/b''),
        StoreQuery (url_request ''compare'' ''https://nowhere.example/x''),
        StoreQuery (url_request ''compare'' ''https://shop.example/a''),
        ChatCompletion (analysis_request ''compare'')] \<and>
   subseq [Some (MStr ''https://shop.example/b''), Some (MStr ''https://shop.example/a'')]
     (map (\<lambda>u. Some (MStr u))
        [''https://shop.example/b'', ''https://nowhere.example/x'', ''https://shop.example/a''])"
proof -
  let ?urls = "[''https://shop.example/b'', ''https://nowhere.example/x'',
                ''https://shop.example/a'']"
  let ?r = "retrieve_for_comparison example_builtins (example_services ''{}'') ''compare''
              (Some ?urls) []"
  have ne: "?urls \<noteq> []" by simp
  have hon: "\<forall>u raw md. index_query (example_services ''{}'') (url_request ''compare'' u) = Inr raw \<longrightarrow>
                 list_item (metadatas raw) 0 = Inr md \<longrightarrow> map_of md ''url'' = Some (MStr u)"
    using example_index_honours_filter by blast
  have ev: "map_sum id (map (\<lambda>r. map_of (metadata r) ''url'') \<circ> results) (fst ?r)
            = Inr [Some (MStr ''https://shop.example/b''), Some (MStr ''https://shop.example/a'')]"
    by (simp add: retrieve_for_comparison_def analyze_eq example_services_def example_index_def
        example_entries_def url_request_def targeted_result_def list_item_def dict_item_def
        Let_def split: sum.splits)
  have answered: "\<forall>u\<in>set ?urls. \<exists>raw. index_query (example_services ''{}'')
                        (url_request ''compare'' u) = Inr raw \<and>
                      (ids raw = [] \<or> (\<exists>r. targeted_result raw = Inr r))"
    by (simp add: example_services_def example_index_def example_entries_def url_request_def
        targeted_result_def list_item_def dict_item_def Let_def)
  from retrieve_for_comparison_keys[of example_builtins "example_services ''{}''" "''compare''"
      "[]" ?urls] ne answered
  obtain c t where r0: "?r = (Inr c, t)"
    by blast
  then have c: "fst ?r = Inr c" and r: "?r = (Inr c, snd ?r)"
    by simp_all
  have keys: "map (\<lambda>r. map_of (metadata r) ''url'') (results c)
               = [Some (MStr ''https://shop.example/b''), Some (MStr ''https://shop.example/a'')]"
    using ev c by simp
  from retrieve_for_comparison_keys[of example_builtins "example_services ''{}''" "''compare''"
      "[]" ?urls c "snd ?r"] ne r hon
  have tr: "snd ?r = [] @ map (\<lambda>u. StoreQuery \<lparr>query_text = PStr ''compare'', n_results = 1,
                                      filter_metadata = Some [(''url'', MStr u)]\<rparr>) ?urls
               @ [ChatCompletion (analysis_request ''compare'')]"
    and sub: "subseq (map (\<lambda>r. map_of (metadata r) ''url'') (results c))
                (map (\<lambda>u. Some (MStr u)) ?urls)"
    by blast+
  show ?thesis
    using ne ev tr sub unfolding keys by (simp add: url_request_def)
qed


section \<open>Properties of the synthesizer\<close>

lemma citation_list_present:
  "\<forall>r\<in>set rs. map_of (metadata r) ''url'' \<noteq> None \<Longrightarrow>
   citation_list rs = Inr (map (\<lambda>r. the (map_of (metadata r) ''url'')) rs)"
  by (induction rs) (auto simp: dict_item_def split: option.splits)

lemma generate_comparison_failure:
  assumes "format_context_for_llm B context 5 = Inr formatted"
    and "chat_api S (comparison_request q formatted) = Inl e"
  shows "generate_comparison B S q context tr =
           (Inr \<lparr>result_query = q,
                 answer = ''Error generating comparison: '' @ ''LLM generation failed: '' @ str_exn e,
                 products_compared = map product_title (results context),
                 comparison_table = None, summary = None, citations = []\<rparr>,
            tr @ [ChatCompletion (comparison_request q formatted)])"
  using assms
  by (simp add: generate_comparison_def generate_eq comparison_request_def get_all_products_def)

lemma generate_answer_failure:
  assumes "format_context_for_llm B context 3 = Inr formatted"
    and "chat_api S (answer_request q formatted) = Inl e"
  shows "generate_answer B S q context tr =
           (Inr \<lparr>result_query = q,
                 answer = ''Error generating answer: '' @ ''LLM generation failed: '' @ str_exn e,
                 products_compared = map product_title (results context),
                 comparison_table = None, summary = None, citations = []\<rparr>,
            tr @ [ChatCompletion (answer_request q formatted)])"
  using assms
  by (simp add: generate_answer_def generate_eq answer_request_def get_all_products_def)

lemma generate_comparison_success:
  assumes "format_context_for_llm B context 5 = Inr formatted"
    and "chat_api S (comparison_request q formatted) = Inr reply"
    and "citation_list (results context) = Inr urls"
  shows "generate_comparison B S q context tr =
           (Inr \<lparr>result_query = q, answer = str_strip B reply,
                 products_compared = map product_title (results context),
                 comparison_table = extract_comparison_table B (str_strip B reply) context,
                 summary = None, citations = urls\<rparr>,
            tr @ [ChatCompletion (comparison_request q formatted)])"
  using assms
  by (simp add: generate_comparison_def generate_eq comparison_request_def get_all_products_def)

lemma generate_answer_success:
  assumes "format_context_for_llm B context 3 = Inr formatted"
    and "chat_api S (answer_request q formatted) = Inr reply"
    and "citation_list (results context) = Inr urls"
  shows "generate_answer B S q context tr =
           (Inr \<lparr>result_query = q, answer = str_strip B reply,
                 products_compared = map product_title (results context),
                 comparison_table = None, summary = None, citations = urls\<rparr>,
            tr @ [ChatCompletion (answer_request q formatted)])"
  using assms
  by (simp add: generate_answer_def generate_eq answer_request_def get_all_products_def)

lemma compare_of_context:
  "compare_retrieve B S q product_urls tr = (Inr context, tr') \<Longrightarrow>
   compare B S q product_urls tr = compare_context B S q context tr'"
  by (simp add: compare_def)

lemma targeted_loop_no_match:
  assumes "\<forall>req. \<exists>raw. index_query S req = Inr raw \<and> ids raw = []"
  shows "targeted_loop S q urls acc tr = (Inr acc, tr @ map (\<lambda>u. StoreQuery (url_request q u)) urls)"
proof (induction urls arbitrary: tr)
  case Nil
  then show ?case by simp
next
  case (Cons u us)
  obtain raw where "index_query S (url_request q u) = Inr raw" "ids raw = []"
    using assms by blast
  then show ?case by (simp add: Cons.IH)
qed

lemma compare_retrieve_empty_index:
  assumes "\<forall>req. \<exists>raw. index_query S req = Inr raw \<and> ids raw = []"
  shows "\<exists>context. fst (compare_retrieve B S q product_urls tr) = Inr context \<and> results context = []"
proof (cases "given product_urls")
  case True
  then obtain u us where p: "product_urls = Some (u # us)"
    by (cases product_urls) (auto simp: neq_Nil_conv)
  show ?thesis
    using True p targeted_loop_no_match[OF assms, of q "u # us" "[]" tr]
    by (simp add: compare_retrieve_def retrieve_for_comparison_def analyze_eq)
next
  case False
  obtain a where a: "analyze B S q tr = (Inr a, tr @ [ChatCompletion (analysis_request q)])"
    by (simp add: analyze_eq)
  obtain raw where raw: "index_query S \<lparr>query_text = expanded_query a, n_results = 10,
                                        filter_metadata = None\<rparr> = Inr raw" "ids raw = []"
    using assms by blast
  show ?thesis
    using False a raw by (simp add: compare_retrieve_def retrieve_def)
qed

text \<open>
  Claim C2. Against a retrieval context with zero results, \<^verbatim>\<open>compare\<close> returns, without
  raising, the result with no products, the fixed answer, no table and no citations, and
  sends nothing to the model: the trace it returns is the trace as retrieval left it (whose
  only chat completion is the classification request of the query analyzer). This is what
  happens, for every query and key list, when the index is empty.
\<close>

theorem compare_no_results:
  "(results context = [] \<longrightarrow>
      compare_context B S q context tr' =
        (Inr \<lparr>result_query = q,
              answer = ''I couldn'' @ [CHR 0x27]
                       @ ''t find any products to compare. Please add products first.'',
              products_compared = [], comparison_table = None,
              summary = Some ''No products found.'', citations = []\<rparr>, tr')) \<and>
   (compare_retrieve B S q product_urls tr = (Inr context, tr') \<longrightarrow> results context = [] \<longrightarrow>
      compare B S q product_urls tr =
        (Inr \<lparr>result_query = q,
              answer = ''I couldn'' @ [CHR 0x27]
                       @ ''t find any products to compare. Please add products first.'',
              products_compared = [], comparison_table = None,
              summary = Some ''No products found.'', citations = []\<rparr>, tr')) \<and>
   ((\<forall>req. \<exists>raw. index_query S req = Inr raw \<and> ids raw = []) \<longrightarrow>
      compare B S q product_urls tr =
        (Inr \<lparr>result_query = q,
              answer = ''I couldn'' @ [CHR 0x27]
                       @ ''t find any products to compare. Please add products first.'',
              products_compared = [], comparison_table = None,
              summary = Some ''No products found.'', citations = []\<rparr>,
         snd (compare_retrieve B S q product_urls tr)))"
proof -
  have ctx: "compare_context B S q c t =
        (Inr \<lparr>result_query = q,
              answer = ''I couldn'' @ [CHR 0x27]
                       @ ''t find any products to compare. Please add products first.'',
              products_compared = [], comparison_table = None,
              summary = Some ''No products found.'', citations = []\<rparr>, t)"
    if "results c = []" for c t
    using that by (simp add: compare_context_def no_products_answer_def)
  have empty: "compare B S q product_urls tr =
        (Inr \<lparr>result_query = q,
              answer = ''I couldn'' @ [CHR 0x27]
                       @ ''t find any products to compare. Please add products first.'',
              products_compared = [], comparison_table = None,
              summary = Some ''No products found.'', citations = []\<rparr>,
         snd (compare_retrieve B S q product_urls tr))"
    if h: "\<forall>req. \<exists>raw. index_query S req = Inr raw \<and> ids raw = []"
  proof -
    obtain c where c: "fst (compare_retrieve B S q product_urls tr) = Inr c" "results c = []"
      using compare_retrieve_empty_index[OF h] by blast
    then have "compare_retrieve B S q product_urls tr
                 = (Inr c, snd (compare_retrieve B S q product_urls tr))"
      by (cases "compare_retrieve B S q product_urls tr") simp
    from compare_of_context[OF this] ctx[OF c(2)] show ?thesis by simp
  qed
  show ?thesis
    using ctx empty by (auto simp: compare_of_context)
qed

theorem compare_no_results_witness:
  "(\<forall>req. \<exists>raw. index_query empty_services req = Inr raw \<and> ids raw = []) \<and>
   map_sum id results
     (fst (compare_retrieve example_builtins empty_services ''compare the prices'' None []))
     = Inr [] \<and>
   compare example_builtins empty_services ''compare the prices'' None [] =
     (Inr \<lparr>result_query = ''compare the prices'',
           answer = ''I couldn'' @ [CHR 0x27]
                    @ ''t find any products to compare. Please add products first.'',
           products_compared = [], comparison_table = None,
           summary = Some ''No products found.'', citations = []\<rparr>,
      [ChatCompletion (analysis_request ''compare the prices''),
       StoreQuery \<lparr>query_text = PStr ''compare the prices'', n_results = 10,
                   filter_metadata = None\<rparr>])"
proof -
  have h: "\<forall>req. \<exists>raw. index_query empty_services req = Inr raw \<and> ids raw = []"
    by (simp add: empty_services_def empty_index_def)
  have r: "compare_retrieve example_builtins empty_services ''compare the prices'' None [] =
     (Inr \<lparr>query = ''compare the prices'',
           query_analysis = \<lparr>original_query = ''compare the prices'',
             query_type = PStr ''general'', aspects = PList [], entities = PList [],
             is_comparative = PBool False, expanded_query = PStr ''compare the prices''\<rparr>,
           results = [], total_retrieved = 0\<rparr>,
      [ChatCompletion (analysis_request ''compare the prices''),
       StoreQuery \<lparr>query_text = PStr ''compare the prices'', n_results = 10,
                   filter_metadata = None\<rparr>])"
    by (simp add: compare_retrieve_def retrieve_def analyze_eq empty_services_def
        empty_index_def example_chat_def analysis_request_def build_request_def
        example_builtins_def example_strip_def example_loads_def read_analysis_def
        dict_get_def Let_def)
  from compare_no_results[of _ example_builtins empty_services "''compare the prices''" _
      None "[]"] h
  have "compare example_builtins empty_services ''compare the prices'' None [] =
        (Inr \<lparr>result_query = ''compare the prices'',
              answer = ''I couldn'' @ [CHR 0x27]
                       @ ''t find any products to compare. Please add products first.'',
              products_compared = [], comparison_table = None,
              summary = Some ''No products found.'', citations = []\<rparr>,
         snd (compare_retrieve example_builtins empty_services ''compare the prices'' None []))"
    by blast
  with h r show ?thesis by simp
qed


lemma join_value_strings: "join_value B sep (PList (map PStr xs)) = Inr (join sep xs)"
proof -
  have "list_all (\<lambda>x. the_str x \<noteq> None) (map PStr xs)"
    by (induction xs) auto
  moreover have "List.map_filter the_str (map PStr xs) = xs"
    by (induction xs) (auto simp: List.map_filter_simps)
  ultimately show ?thesis by (simp add: join_value_def)
qed

lemma format_context_defined:
  assumes "\<not> truthy (aspects (query_analysis context)) \<or>
           (\<exists>xs. aspects (query_analysis context) = PList (map PStr xs))"
  shows "\<exists>formatted. format_context_for_llm B context k = Inr formatted"
  using assms
  by (auto simp: format_context_for_llm_def Let_def join_value_strings simp del: truthy.simps)

text \<open>
  Claim C6. For a non-empty comparative context, when the call of the model made by
  \<^verbatim>\<open>_generate_comparison\<close> fails, \<^verbatim>\<open>compare\<close> returns, without raising, a result whose answer
  is \<^verbatim>\<open>"Error generating comparison: "\<close> followed by the text of the exception, with the
  titles of the results, no table and no citations.
\<close>

theorem compare_generation_failure:
  assumes "compare_retrieve B S q product_urls tr = (Inr context, tr')"
    and "results context \<noteq> []"
    and "truthy (is_comparative (query_analysis context))"
    and "format_context_for_llm B context 5 = Inr formatted"
    and "chat_api S (comparison_request q formatted) = Inl e"
  shows "compare B S q product_urls tr =
           (Inr \<lparr>result_query = q,
                 answer = ''Error generating comparison: '' @ ''LLM generation failed: ''
                          @ str_exn e,
                 products_compared = map product_title (results context),
                 comparison_table = None, summary = None, citations = []\<rparr>,
            tr' @ [ChatCompletion (comparison_request q formatted)])"
  using assms
  by (simp add: compare_of_context compare_context_def generate_comparison_failure)

lemma offline_retrieve_eval:
  "map_sum id (\<lambda>c. (results c \<noteq> [], truthy (is_comparative (query_analysis c)),
                     aspects (query_analysis c), map product_title (results c),
                     citation_list (results c)))
     (fst (compare_retrieve example_builtins offline_services ''compare the prices'' None []))
   = Inr (True, True, PList [PStr ''price''], [MStr ''Phone A'', MStr ''Phone B''],
          Inr [MStr ''https://shop.example/a'', MStr ''https://shop.example/b''])"
  by (simp add: compare_retrieve_def retrieve_def analyze_eq offline_services_def
      offline_chat_def fallback_analysis_eq comparative_keywords_def specific_keywords_def
      aspect_keywords_def example_builtins_def example_lower_def sublist_code
      example_index_def example_entries_def Let_def list_item_def dict_item_def upt_rec
      ensure_diversity_def)

theorem compare_generation_failure_witness:
  "map_sum id (\<lambda>c. (results c \<noteq> [], truthy (is_comparative (query_analysis c))))
     (fst (compare_retrieve example_builtins offline_services ''compare the prices'' None []))
     = Inr (True, True) \<and>
   map_sum id (\<lambda>r. (answer r, products_compared r, comparison_table r, citations r))
     (fst (compare example_builtins offline_services ''compare the prices'' None []))
     = Inr (''Error generating comparison: LLM generation failed: Connection error.'',
            [MStr ''Phone A'', MStr ''Phone B''], None, [])"
proof -
  let ?r = "compare_retrieve example_builtins offline_services ''compare the prices'' None []"
  obtain c where c: "fst ?r = Inr c" and ne: "results c \<noteq> []"
    and cmp: "truthy (is_comparative (query_analysis c))"
    and asp: "aspects (query_analysis c) = PList [PStr ''price'']"
    and titles: "map product_title (results c) = [MStr ''Phone A'', MStr ''Phone B'']"
    using offline_retrieve_eval by (cases "fst ?r") auto
  have r: "?r = (Inr c, snd ?r)"
    using c by (cases ?r) simp
  have "aspects (query_analysis c) = PList (map PStr [''price''])"
    using asp by simp
  then obtain formatted where f: "format_context_for_llm example_builtins c 5 = Inr formatted"
    using format_context_defined[of c example_builtins 5] by blast
  have down: "chat_api offline_services (comparison_request ''compare the prices'' formatted)
                = Inl (Exception ''Connection error.'')"
    by (simp add: offline_services_def offline_chat_def)
  from compare_generation_failure[OF r ne cmp f down] c ne cmp titles
  show ?thesis by simp
qed

lemma offline_compare_eval:
  "map_sum id (\<lambda>r. (answer r, products_compared r, comparison_table r, citations r))
     (fst (compare example_builtins offline_services ''compare the prices'' None []))
     = Inr (''Error generating comparison: LLM generation failed: Connection error.'',
            [MStr ''Phone A'', MStr ''Phone B''], None, [])"
proof -
  let ?r = "compare_retrieve example_builtins offline_services ''compare the prices'' None []"
  obtain c where c: "fst ?r = Inr c" and ne: "results c \<noteq> []"
    and cmp: "truthy (is_comparative (query_analysis c))"
    and asp: "aspects (query_analysis c) = PList [PStr ''price'']"
    and titles: "map product_title (results c) = [MStr ''Phone A'', MStr ''Phone B'']"
    using offline_retrieve_eval by (cases "fst ?r") auto
  have r: "?r = (Inr c, snd ?r)"
    using c by (cases ?r) simp
  have "aspects (query_analysis c) = PList (map PStr [''price''])"
    using asp by simp
  then obtain formatted where f: "format_context_for_llm example_builtins c 5 = Inr formatted"
    using format_context_defined[of c example_builtins 5] by blast
  have down: "chat_api offline_services (comparison_request ''compare the prices'' formatted)
                = Inl (Exception ''Connection error.'')"
    by (simp add: offline_services_def offline_chat_def)
  show ?thesis
    using compare_of_context[OF r] generate_comparison_failure[OF f down] ne cmp titles
    by (simp add: compare_context_def)
qed

text \<open>
  Claim C7, as stated, fails: when the call of the model fails, the result returned for a
  non-empty context has no citations, although every retrieved result has a source key.
\<close>

theorem compare_citations_counterexample:
  "map_sum id citations
     (fst (compare example_builtins offline_services ''compare the prices'' None []))
     = Inr [] \<and>
   map_sum id (citation_list \<circ> results)
     (fst (compare_retrieve example_builtins offline_services ''compare the prices'' None []))
     = Inr (Inr [MStr ''https://shop.example/a'', MStr ''https://shop.example/b''])"
proof -
  have "map_sum id citations
     (fst (compare example_builtins offline_services ''compare the prices'' None [])) = Inr []"
    using offline_compare_eval
    by (cases "fst (compare example_builtins offline_services ''compare the prices'' None [])")
       auto
  moreover have "map_sum id (citation_list \<circ> results)
     (fst (compare_retrieve example_builtins offline_services ''compare the prices'' None []))
     = Inr (Inr [MStr ''https://shop.example/a'', MStr ''https://shop.example/b''])"
    using offline_retrieve_eval
    by (cases "fst (compare_retrieve example_builtins offline_services
                      ''compare the prices'' None [])") auto
  ultimately show ?thesis by simp
qed

text \<open>
  Claim C7, amended. For a non-empty context whose results all have a source key, on the
  comparative and on the direct-answer path, when the call of the model succeeds the
  citations of the result returned by \<^verbatim>\<open>compare\<close> are the source keys of the results, one per
  result, in order, repeated where a key repeats.
\<close>

theorem compare_citations:
  assumes "compare_retrieve B S q product_urls tr = (Inr context, tr')"
    and "results context \<noteq> []"
    and "\<forall>r\<in>set (results context). map_of (metadata r) ''url'' \<noteq> None"
    and "if truthy (is_comparative (query_analysis context))
         then \<exists>formatted reply. format_context_for_llm B context 5 = Inr formatted \<and>
                chat_api S (comparison_request q formatted) = Inr reply
         else \<exists>formatted reply. format_context_for_llm B context 3 = Inr formatted \<and>
                chat_api S (answer_request q formatted) = Inr reply"
  shows "map_sum id citations (fst (compare B S q product_urls tr))
         = Inr (map (\<lambda>r. the (map_of (metadata r) ''url'')) (results context))"
proof -
  have cl: "citation_list (results context)
            = Inr (map (\<lambda>r. the (map_of (metadata r) ''url'')) (results context))"
    using assms(3) by (rule citation_list_present)
  show ?thesis
  proof (cases "truthy (is_comparative (query_analysis context))")
    case True
    then obtain formatted reply where "format_context_for_llm B context 5 = Inr formatted"
      "chat_api S (comparison_request q formatted) = Inr reply"
      using assms(4) by auto
    from generate_comparison_success[OF this cl] True assms(2) show ?thesis
      by (simp add: compare_of_context[OF assms(1)] compare_context_def)
  next
    case False
    then obtain formatted reply where "format_context_for_llm B context 3 = Inr formatted"
      "chat_api S (answer_request q formatted) = Inr reply"
      using assms(4) by auto
    from generate_answer_success[OF this cl] False assms(2) show ?thesis
      by (simp add: compare_of_context[OF assms(1)] compare_context_def)
  qed
qed

lemma repeated_key_retrieve_eval:
  "map_sum id (\<lambda>c. (map product_title (results c), map brand (results c),
                     truthy (is_comparative (query_analysis c)),
                     aspects (query_analysis c),
                     map (\<lambda>r. map_of (metadata r) ''url'') (results c)))
     (fst (compare_retrieve example_builtins (example_services ''{\"is_comparative\": true}'')
             ''which one'' (Some [''https://shop.example/a'', ''https://shop.example/a'']) []))
   = Inr ([MStr ''Phone A'', MStr ''Phone A''], [MStr ''Acme'', MStr ''Acme''], True, PList [],
          [Some (MStr ''https://shop.example/a''), Some (MStr ''https://shop.example/a'')])"
  by (simp add: compare_retrieve_def retrieve_for_comparison_def analyze_eq
      example_services_def example_chat_def analysis_request_def build_request_def
      example_builtins_def example_strip_def example_loads_def read_analysis_def dict_get_def
      example_index_def example_entries_def url_request_def targeted_result_def
      list_item_def dict_item_def Let_def)

theorem compare_citations_witness:
  "map_sum id (map (\<lambda>r. map_of (metadata r) ''url'') \<circ> results)
     (fst (compare_retrieve example_builtins (example_services ''{\"is_comparative\": true}'')
             ''which one'' (Some [''https://shop.example/a'', ''https://shop.example/a'']) []))
     = Inr [Some (MStr ''https://shop.example/a''), Some (MStr ''https://shop.example/a'')] \<and>
   map_sum id citations
     (fst (compare example_builtins (example_services ''{\"is_comparative\": true}'')
             ''which one'' (Some [''https://shop.example/a'', ''https://shop.example/a'']) []))
     = Inr [MStr ''https://shop.example/a'', MStr ''https://shop.example/a'']"
proof -
  let ?S = "example_services ''{\"is_comparative\": true}''"
  let ?urls = "Some [''https://shop.example/a'', ''https://shop.example/a'']"
  let ?r = "compare_retrieve example_builtins ?S ''which one'' ?urls []"
  obtain c where c: "fst ?r = Inr c"
    and cmp: "truthy (is_comparative (query_analysis c))"
    and asp: "aspects (query_analysis c) = PList []"
    and keys: "map (\<lambda>r. map_of (metadata r) ''url'') (results c)
               = [Some (MStr ''https://shop.example/a''), Some (MStr ''https://shop.example/a'')]"
    using repeated_key_retrieve_eval by (cases "fst ?r") auto
  have r: "?r = (Inr c, snd ?r)"
    using c by (cases ?r) simp
  have ne: "results c \<noteq> []"
    using keys by auto
  have present: "\<forall>r\<in>set (results c). map_of (metadata r) ''url'' \<noteq> None"
  proof
    fix x assume "x \<in> set (results c)"
    then have "map_of (metadata x) ''url'' \<in> set (map (\<lambda>r. map_of (metadata r) ''url'') (results c))"
      by simp
    then show "map_of (metadata x) ''url'' \<noteq> None"
      unfolding keys by auto
  qed
  have the_keys: "map (\<lambda>r. the (map_of (metadata r) ''url'')) (results c)
                  = map the (map (\<lambda>r. map_of (metadata r) ''url'') (results c))"
    by simp
  obtain formatted where f: "format_context_for_llm example_builtins c 5 = Inr formatted"
    using format_context_defined[of c example_builtins 5] asp by auto
  have "chat_api ?S (comparison_request ''which one'' formatted) = Inr ''Phone A costs less.''"
    by (simp add: example_services_def example_chat_def comparison_request_def
        build_request_def)
  with f cmp have gen: "if truthy (is_comparative (query_analysis c))
         then \<exists>formatted reply. format_context_for_llm example_builtins c 5 = Inr formatted \<and>
                chat_api ?S (comparison_request ''which one'' formatted) = Inr reply
         else \<exists>formatted reply. format_context_for_llm example_builtins c 3 = Inr formatted \<and>
                chat_api ?S (answer_request ''which one'' formatted) = Inr reply"
    by auto
  have "map_sum id citations (fst (compare example_builtins ?S ''which one'' ?urls []))
        = Inr (map the [Some (MStr ''https://shop.example/a''),
                        Some (MStr ''https://shop.example/a'')])"
    using compare_citations[OF r ne present gen] unfolding the_keys keys .
  with c keys show ?thesis by simp
qed

section \<open>Properties of table extraction\<close>

lemma table_row_present:
  assumes "map_of (metadata r) ''brand'' \<noteq> None"
    and "map_of (metadata r) ''currency'' \<noteq> None"
    and "map_of (metadata r) ''price'' \<noteq> None"
  shows "table_row B r = Inr (spec_row B r)"
  using assms by (auto simp: table_row_def spec_row_def dict_item_def dict_get_def)

lemma table_row_missing:
  assumes "map_of (metadata r) ''brand'' = None \<or> map_of (metadata r) ''currency'' = None
           \<or> map_of (metadata r) ''price'' = None"
  shows "\<exists>e. table_row B r = Inl e"
  using assms by (auto simp: table_row_def dict_item_def split: option.splits)

lemma table_loop_missing:
  "\<exists>r\<in>set rs. \<exists>e. table_row B r = Inl e \<Longrightarrow> \<exists>e. table_loop B rs t = Inl e"
proof (induction rs arbitrary: t)
  case Nil
  then show ?case by simp
next
  case (Cons x xs)
  show ?case
  proof (cases "table_row B x")
    case (Inl e)
    then show ?thesis by simp
  next
    case (Inr row)
    with Cons.prems have "\<exists>r\<in>set xs. \<exists>e. table_row B r = Inl e" by auto
    from Cons.IH[OF this] Inr show ?thesis by simp
  qed
qed

lemma find_append_case:
  "find P (xs @ ys) = (case find P xs of None \<Rightarrow> find P ys | Some x \<Rightarrow> Some x)"
  by (induction xs) auto

lemma table_loop_present:
  assumes "\<forall>r\<in>set rs. table_row B r = Inr (spec_row B r)"
  shows "\<exists>table. table_loop B rs t = Inr table \<and>
           (distinct (map fst t) \<longrightarrow> distinct (map fst table)) \<and>
           (\<forall>k. map_of table k =
                  (case find (\<lambda>r. product_title r = k) (rev rs) of
                     None \<Rightarrow> map_of t k
                   | Some r \<Rightarrow> Some (spec_row B r)))"
  using assms
proof (induction rs arbitrary: t)
  case Nil
  then show ?case by simp
next
  case (Cons x xs)
  let ?t = "AList.update (product_title x) (spec_row B x) t"
  have "\<forall>r\<in>set xs. table_row B r = Inr (spec_row B r)"
    using Cons.prems by simp
  from Cons.IH[OF this, of ?t] obtain table where
    tl: "table_loop B xs ?t = Inr table"
    and d: "distinct (map fst ?t) \<longrightarrow> distinct (map fst table)"
    and m: "\<forall>k. map_of table k =
                  (case find (\<lambda>r. product_title r = k) (rev xs) of
                     None \<Rightarrow> map_of ?t k
                   | Some r \<Rightarrow> Some (spec_row B r))"
    by blast
  have "table_loop B (x # xs) t = Inr table"
    using tl Cons.prems by simp
  moreover have "distinct (map fst t) \<longrightarrow> distinct (map fst table)"
    using d by (simp add: distinct_update)
  moreover have "map_of table k =
                  (case find (\<lambda>r. product_title r = k) (rev (x # xs)) of
                     None \<Rightarrow> map_of t k
                   | Some r \<Rightarrow> Some (spec_row B r))" for k
    using m by (simp add: find_append_case update_conv' split: option.splits)
  ultimately show ?case by blast
qed

lemma find_distinct_member:
  "distinct (map f ys) \<Longrightarrow> r \<in> set ys \<Longrightarrow> find (\<lambda>x. f x = f r) ys = Some r"
  by (induction ys) (auto simp: image_iff)

text \<open>
  Claim C8, amended. Table extraction returns no table for fewer than 2 results, and no
  table (instead of raising) when one of the top 5 results lacks \<^verbatim>\<open>"brand"\<close>, \<^verbatim>\<open>"currency"\<close>
  or \<^verbatim>\<open>"price"\<close>. Otherwise it returns a mapping whose keys are the titles of the top 5
  results and which gives a title the row (brand, currency followed by price, rating)
  read from the metadata of the last of the top 5 results with that title; so when the
  titles of the top 5 results differ, each result's title is mapped to that result's row.
  The reply of the model is not used.
\<close>

theorem extract_comparison_table_rows:
  "(length (results context) < 2 \<longrightarrow> extract_comparison_table B reply context = None) \<and>
   (2 \<le> length (results context) \<longrightarrow>
      (\<exists>r\<in>set (take 5 (results context)).
          map_of (metadata r) ''brand'' = None \<or> map_of (metadata r) ''currency'' = None \<or>
          map_of (metadata r) ''price'' = None) \<longrightarrow>
      extract_comparison_table B reply context = None) \<and>
   (2 \<le> length (results context) \<longrightarrow>
      (\<forall>r\<in>set (take 5 (results context)).
          map_of (metadata r) ''brand'' \<noteq> None \<and> map_of (metadata r) ''currency'' \<noteq> None \<and>
          map_of (metadata r) ''price'' \<noteq> None) \<longrightarrow>
      (\<exists>table. extract_comparison_table B reply context = Some table \<and>
         distinct (map fst table) \<and>
         (\<forall>title. map_of table title =
            map_option (spec_row B)
              (find (\<lambda>r. product_title r = title) (rev (take 5 (results context))))) \<and>
         (distinct (map product_title (take 5 (results context))) \<longrightarrow>
            (\<forall>r\<in>set (take 5 (results context)).
                map_of table (product_title r) = Some (spec_row B r)))))"
proof -
  let ?top = "take 5 (results context)"
  have few: "extract_comparison_table B reply context = None" if "length (results context) < 2"
    using that by (simp add: extract_comparison_table_def)
  have missing: "extract_comparison_table B reply context = None"
    if "2 \<le> length (results context)"
      and "\<exists>r\<in>set ?top. map_of (metadata r) ''brand'' = None \<or>
             map_of (metadata r) ''currency'' = None \<or> map_of (metadata r) ''price'' = None"
  proof -
    have "\<exists>r\<in>set ?top. \<exists>e. table_row B r = Inl e"
      using that(2) table_row_missing by blast
    from table_loop_missing[OF this, of "[]"] that(1) show ?thesis
      by (auto simp: extract_comparison_table_def)
  qed
  have present: "\<exists>table. extract_comparison_table B reply context = Some table \<and>
         distinct (map fst table) \<and>
         (\<forall>title. map_of table title =
            map_option (spec_row B) (find (\<lambda>r. product_title r = title) (rev ?top))) \<and>
         (distinct (map product_title ?top) \<longrightarrow>
            (\<forall>r\<in>set ?top. map_of table (product_title r) = Some (spec_row B r)))"
    if len: "2 \<le> length (results context)"
      and all: "\<forall>r\<in>set ?top. map_of (metadata r) ''brand'' \<noteq> None \<and>
             map_of (metadata r) ''currency'' \<noteq> None \<and> map_of (metadata r) ''price'' \<noteq> None"
  proof -
    have "\<forall>r\<in>set ?top. table_row B r = Inr (spec_row B r)"
      using all table_row_present by blast
    from table_loop_present[OF this, of "[]"] obtain table where
      tl: "table_loop B ?top [] = Inr table"
      and d: "distinct (map fst table)"
      and m: "\<forall>k. map_of table k =
                  (case find (\<lambda>r. product_title r = k) (rev ?top) of
                     None \<Rightarrow> map_of [] k
                   | Some r \<Rightarrow> Some (spec_row B r))"
      by auto
    have e: "extract_comparison_table B reply context = Some table"
      using tl len by (simp add: extract_comparison_table_def)
    have m': "map_of table title =
            map_option (spec_row B) (find (\<lambda>r. product_title r = title) (rev ?top))" for title
      using m by (simp split: option.splits)
    have own: "map_of table (product_title r) = Some (spec_row B r)"
      if dist: "distinct (map product_title ?top)" and r: "r \<in> set ?top" for r
    proof -
      have "distinct (map product_title (rev ?top))"
        using dist by (simp add: rev_map[symmetric])
      moreover have "r \<in> set (rev ?top)" using r by simp
      ultimately have "find (\<lambda>x. product_title x = product_title r) (rev ?top) = Some r"
        by (rule find_distinct_member)
      then show ?thesis by (simp add: m')
    qed
    show ?thesis
      using e d m' own by blast
  qed
  show ?thesis
    using few missing present by blast
qed

theorem extract_comparison_table_rows_witness:
  "2 \<le> length (results example_context) \<and>
   distinct (map product_title (take 5 (results example_context))) \<and>
   extract_comparison_table example_builtins ''Phone A costs less.'' example_context =
     Some [(MStr ''Phone A'',
            [(''brand'', MStr ''Acme''), (''price'', MStr ''$100''), (''rating'', MFloat (9/2))]),
           (MStr ''Phone B'',
            [(''brand'', MStr ''Bolt''), (''price'', MStr ''$200''), (''rating'', MStr ''N/A'')])] \<and>
   map_of (the (extract_comparison_table example_builtins ''Phone A costs less.'' example_context))
     (MStr ''Phone B'')
     = Some (spec_row example_builtins (results example_context ! 1))"
proof -
  have len: "2 \<le> length (results example_context)"
    by (simp add: example_context_def)
  have dist: "distinct (map product_title (take 5 (results example_context)))"
    by (simp add: example_context_def)
  have all: "\<forall>r\<in>set (take 5 (results example_context)).
          map_of (metadata r) ''brand'' \<noteq> None \<and> map_of (metadata r) ''currency'' \<noteq> None \<and>
          map_of (metadata r) ''price'' \<noteq> None"
    by (simp add: example_context_def)
  have mem: "results example_context ! 1 \<in> set (take 5 (results example_context))"
    by (simp add: example_context_def)
  have ev: "extract_comparison_table example_builtins ''Phone A costs less.'' example_context =
     Some [(MStr ''Phone A'',
            [(''brand'', MStr ''Acme''), (''price'', MStr ''$100''), (''rating'', MFloat (9/2))]),
           (MStr ''Phone B'',
            [(''brand'', MStr ''Bolt''), (''price'', MStr ''$200''), (''rating'', MStr ''N/A'')])]"
    by (simp add: extract_comparison_table_def example_context_def table_row_def dict_item_def
        dict_get_def py_str_def example_builtins_def)
  from extract_comparison_table_rows[of example_context example_builtins "''Phone A costs less.''"]
    len dist all mem
  have "map_of (the (extract_comparison_table example_builtins ''Phone A costs less.''
                       example_context))
          (product_title (results example_context ! 1))
        = Some (spec_row example_builtins (results example_context ! 1))"
    by (metis option.sel)
  moreover have "product_title (results example_context ! 1) = MStr ''Phone B''"
    by (simp add: example_context_def)
  ultimately show ?thesis
    using len dist ev by simp
qed

lemma same_title_retrieve_eval:
  "map_sum id (\<lambda>c. (results c, truthy (is_comparative (query_analysis c)),
                     aspects (query_analysis c)))
     (fst (compare_retrieve example_builtins (example_services ''{\"is_comparative\": true}'')
             ''which one''
             (Some [''https://shop.example/a'', ''https://market.example/a'']) []))
   = Inr ([\<lparr>product_title = MStr ''Phone A'', brand = MStr ''Acme'', content = ''# Phone A'',
            metadata = [(''url'', MStr ''https://shop.example/a''), (''title'', MStr ''Phone A''),
                        (''brand'', MStr ''Acme''), (''price'', MStr ''100''),
                        (''currency'', MStr ''$''), (''rating'', MFloat (9/2))],
            relevance_score = 3/4\<rparr>,
           \<lparr>product_title = MStr ''Phone A'', brand = MStr ''Acme Renewed'',
            content = ''# Phone A (renewed)'',
            metadata = [(''url'', MStr ''https://market.example/a''), (''title'', MStr ''Phone A''),
                        (''brand'', MStr ''Acme Renewed''), (''price'', MStr ''80''),
                        (''currency'', MStr ''$''), (''rating'', MFloat 4)],
            relevance_score = 1/2\<rparr>],
          True, PList [])"
  by (simp add: compare_retrieve_def retrieve_for_comparison_def analyze_eq
      example_services_def example_chat_def analysis_request_def build_request_def
      example_builtins_def example_strip_def example_loads_def read_analysis_def dict_get_def
      example_index_def example_entries_def url_request_def targeted_result_def
      list_item_def dict_item_def Let_def)

text \<open>
  Claim C8, as stated, fails: \<^verbatim>\<open>compare\<close> on two keys whose products have the same title
  returns a table with one row, and the title of the first result is mapped to the row of
  the second (its brand and price), not to the row read from the first result's metadata.
\<close>

theorem extract_comparison_table_counterexample:
  "map_sum id (map product_title \<circ> results)
     (fst (compare_retrieve example_builtins (example_services ''{\"is_comparative\": true}'')
             ''which one''
             (Some [''https://shop.example/a'', ''https://market.example/a'']) []))
     = Inr [MStr ''Phone A'', MStr ''Phone A''] \<and>
   map_sum id (map (spec_row example_builtins) \<circ> results)
     (fst (compare_retrieve example_builtins (example_services ''{\"is_comparative\": true}'')
             ''which one''
             (Some [''https://shop.example/a'', ''https://market.example/a'']) []))
     = Inr [[(''brand'', MStr ''Acme''), (''price'', MStr ''$100''), (''rating'', MFloat (9/2))],
            [(''brand'', MStr ''Acme Renewed''), (''price'', MStr ''$80''),
             (''rating'', MFloat 4)]] \<and>
   map_sum id comparison_table
     (fst (compare example_builtins (example_services ''{\"is_comparative\": true}'')
             ''which one''
             (Some [''https://shop.example/a'', ''https://market.example/a'']) []))
     = Inr (Some [(MStr ''Phone A'',
                   [(''brand'', MStr ''Acme Renewed''), (''price'', MStr ''$80''),
                    (''rating'', MFloat 4)])])"
proof -
  let ?S = "example_services ''{\"is_comparative\": true}''"
  let ?urls = "Some [''https://shop.example/a'', ''https://market.example/a'']"
  let ?r = "compare_retrieve example_builtins ?S ''which one'' ?urls []"
  obtain c where c: "fst ?r = Inr c"
    and res: "results c =
          [\<lparr>product_title = MStr ''Phone A'', brand = MStr ''Acme'', content = ''# Phone A'',
            metadata = [(''url'', MStr ''https://shop.example/a''), (''title'', MStr ''Phone A''),
                        (''brand'', MStr ''Acme''), (''price'', MStr ''100''),
                        (''currency'', MStr ''$''), (''rating'', MFloat (9/2))],
            relevance_score = 3/4\<rparr>,
           \<lparr>product_title = MStr ''Phone A'', brand = MStr ''Acme Renewed'',
            content = ''# Phone A (renewed)'',
            metadata = [(''url'', MStr ''https://market.example/a''), (''title'', MStr ''Phone A''),
                        (''brand'', MStr ''Acme Renewed''), (''price'', MStr ''80''),
                        (''currency'', MStr ''$''), (''rating'', MFloat 4)],
            relevance_score = 1/2\<rparr>]"
    and cmp: "truthy (is_comparative (query_analysis c))"
    and asp: "aspects (query_analysis c) = PList []"
    using same_title_retrieve_eval by (cases "fst ?r") auto
  have r: "?r = (Inr c, snd ?r)"
    using c by (cases ?r) simp
  have titles: "map product_title (results c) = [MStr ''Phone A'', MStr ''Phone A'']"
    by (simp add: res)
  have rows: "map (spec_row example_builtins) (results c)
     = [[(''brand'', MStr ''Acme''), (''price'', MStr ''$100''), (''rating'', MFloat (9/2))],
        [(''brand'', MStr ''Acme Renewed''), (''price'', MStr ''$80''), (''rating'', MFloat 4)]]"
    by (simp add: res spec_row_def py_str_def)
  have cl: "citation_list (results c)
            = Inr [MStr ''https://shop.example/a'', MStr ''https://market.example/a'']"
    by (simp add: res dict_item_def)
  obtain formatted where f: "format_context_for_llm example_builtins c 5 = Inr formatted"
    using format_context_defined[of c example_builtins 5] asp by auto
  have g: "chat_api ?S (comparison_request ''which one'' formatted) = Inr ''Phone A costs less.''"
    by (simp add: example_services_def example_chat_def comparison_request_def
        build_request_def)
  have table: "extract_comparison_table example_builtins reply c
        = Some [(MStr ''Phone A'',
                 [(''brand'', MStr ''Acme Renewed''), (''price'', MStr ''$80''),
                  (''rating'', MFloat 4)])]" for reply
    by (simp add: extract_comparison_table_def res table_row_def dict_item_def dict_get_def
        py_str_def)
  have "map_sum id comparison_table (fst (compare example_builtins ?S ''which one'' ?urls []))
        = Inr (Some [(MStr ''Phone A'',
                      [(''brand'', MStr ''Acme Renewed''), (''price'', MStr ''$80''),
                       (''rating'', MFloat 4)])])"
    using compare_of_context[OF r] generate_comparison_success[OF f g cl] cmp table
    by (simp add: compare_context_def res)
  with c titles rows show ?thesis by simp
qed

end
